theory Spec2Isabelle
  imports Main "HOL-Library.Sublist"
begin

section \<open>JavaScript values and string primitives used by the KAMAR client\<close>

text \<open>
  Strings are \<open>string\<close> (lists of characters). A value that may be \<open>undefined\<close> is an
  \<open>option\<close>, with \<open>None\<close> for \<open>undefined\<close>. An array read out of range gives
  \<open>undefined\<close> in JavaScript; a property read of \<open>undefined\<close> throws a TypeError.
\<close>

datatype error =
    TransportError string  \<comment> \<open>\<open>err\<close> of the \<open>request\<close> callback\<close>
  | DecodeError string  \<comment> \<open>\<open>err\<close> of the \<open>parseString\<close> callback\<close>
  | RemoteError "string option" "string option"
      \<comment> \<open>the object \<open>{error: Error[0], code: ErrorCode[0]}\<close> of \<open>fetch\<close>\<close>
  | StateError string
      \<comment> \<open>\<open>Error(msg)\<close> of \<open>getTimeTable\<close>, and the string rejection of \<open>getAbsences\<close>\<close>
  | JsError string  \<comment> \<open>any other \<open>Error(msg)\<close>\<close>
  | TypeError  \<comment> \<open>thrown by the engine: a property of \<open>undefined\<close> was read\<close>

definition bind_err :: "error + 'a \<Rightarrow> ('a \<Rightarrow> error + 'b) \<Rightarrow> error + 'b" where
  \<comment> \<open>sequencing of statements that may throw: the first throw ends the block\<close>
  "bind_err r f = (case r of Inl e \<Rightarrow> Inl e | Inr v \<Rightarrow> f v)"

definition nth_opt :: "'a list \<Rightarrow> nat \<Rightarrow> 'a option" where
  \<comment> \<open>\<open>xs[i]\<close>: \<open>undefined\<close> out of range\<close>
  "nth_opt xs i = (if i < length xs then Some (xs ! i) else None)"

definition truthy :: "string option \<Rightarrow> bool" where
  \<comment> \<open>a string is falsy exactly when it is empty; \<open>undefined\<close> is falsy\<close>
  "truthy v = (case v of None \<Rightarrow> False | Some s \<Rightarrow> s \<noteq> [])"

definition js_or :: "string option \<Rightarrow> string option \<Rightarrow> string option" where
  \<comment> \<open>\<open>a || b\<close>\<close>
  "js_or a b = (if truthy a then a else b)"

definition js_str :: "string option \<Rightarrow> string" where
  \<comment> \<open>conversion to string in a concatenation or template literal\<close>
  "js_str v = (case v of None \<Rightarrow> ''undefined'' | Some s \<Rightarrow> s)"

fun split_js :: "char \<Rightarrow> string \<Rightarrow> string list" where
  \<comment> \<open>\<open>s.split(c)\<close> for a one-character separator: \<open>''.split(c)\<close> is \<open>['']\<close>\<close>
  "split_js c [] = [[]]"
| "split_js c (x # xs) =
     (if x = c then [] # split_js c xs
      else (case split_js c xs of
              [] \<Rightarrow> [[x]]
            | w # ws \<Rightarrow> (x # w) # ws))"

definition join_js :: "string \<Rightarrow> string list \<Rightarrow> string" where
  \<comment> \<open>\<open>xs.join(sep)\<close>\<close>
  "join_js sep xs = (case xs of [] \<Rightarrow> [] | y # ys \<Rightarrow> y @ concat (map (\<lambda>z. sep @ z) ys))"

definition set_length :: "nat \<Rightarrow> 'a list \<Rightarrow> 'a option list" where
  \<comment> \<open>\<open>xs.length = n\<close>: cuts a longer array, extends a shorter one with holes
      (which read as \<open>undefined\<close>)\<close>
  "set_length n xs = map Some (take n xs) @ replicate (n - length xs) None"

definition digit_char :: "nat \<Rightarrow> char" where
  "digit_char d = ''0123456789'' ! d"

function show_nat :: "nat \<Rightarrow> string" where
  \<comment> \<open>the decimal text of a non-negative integer, as \<open>'W' + n\<close> produces it\<close>
  "show_nat n = (if n < 10 then [digit_char n] else show_nat (n div 10) @ [digit_char (n mod 10)])"
  by pat_completeness auto
termination
  by (relation "measure id") auto

declare show_nat.simps [simp del]

section \<open>Promises\<close>

datatype 'a promise = Pending | Fulfilled 'a | Rejected error

definition resolve :: "'a \<Rightarrow> 'a promise \<Rightarrow> 'a promise" where
  \<comment> \<open>a promise settles once: later calls of \<open>resolve\<close> and \<open>reject\<close> change nothing\<close>
  "resolve v p = (case p of Pending \<Rightarrow> Fulfilled v | _ \<Rightarrow> p)"

definition reject :: "error \<Rightarrow> 'a promise \<Rightarrow> 'a promise" where
  "reject e p = (case p of Pending \<Rightarrow> Rejected e | _ \<Rightarrow> p)"

section \<open>The deserialized response\<close>

text \<open>
  \<open>parseString\<close> wraps every child element in an array. The model collapses the
  one-element wrappers of the fixed paths the client reads: a field is \<open>None\<close> when its
  path does not resolve, so that reading below it throws a TypeError. The fields
  \<open>Error\<close>, \<open>ErrorCode\<close> and the credit cells keep their arrays.

  \<open>parseString\<close> makes the array of a child element when it meets the first such
  child, so an array of a result is never empty: an element without children is the
  string \<open>''\<close>, and the property of the missing child reads as \<open>undefined\<close>. The
  array \<open>Weeks[0].Week\<close>, whose length \<open>getAbsences\<close> writes to the session, is
  therefore its first element and the rest.
\<close>

type_synonym tt_week = "string \<rightharpoonup> string"
  \<comment> \<open>\<open>TT[0]['W' + n][0]\<close>: from the key \<open>'D' + day\<close> to the day's raw string\<close>

type_synonym timetable_data = "string \<rightharpoonup> tt_week"
  \<comment> \<open>\<open>TimetableData[0]\<close>: from the key \<open>'W' + n\<close> to the week's days\<close>

record day =
  day_text :: "string option"  \<comment> \<open>the property \<open>_\<close> of a \<open>Day\<close> element\<close>

record week_entry =
  WeekStart :: "string option"  \<comment> \<open>\<open>WeekStart[0]\<close>\<close>
  Days :: "day list option"  \<comment> \<open>\<open>Days[0].Day\<close>\<close>

record credits =
  \<comment> \<open>an element of credit totals; each property is its array, \<open>None\<close> when absent\<close>
  NotAchieved :: "string list option"
  Achieved :: "string list option"
  Merit :: "string list option"
  Excellence :: "string list option"
  Total :: "string list option"
  Attempted :: "string list option"

record total_row = credits +
  \<comment> \<open>an element of \<open>YearTotal\<close> or \<open>LevelTotal\<close>\<close>
  Year :: "string list option"
  Level :: "string list option"

record ncea =
  L1NCEA :: "string list option"
  L2NCEA :: "string list option"
  L3NCEA :: "string list option"
  NCEAUELIT :: "string list option"
  NCEAL1LIT :: "string list option"
  NCEANUM :: "string list option"

record student =
  TimetableData :: "timetable_data option"
  NCEA :: "ncea option"  \<comment> \<open>\<open>NCEA[0]\<close>\<close>
  CreditsInternal :: "credits option"  \<comment> \<open>\<open>CreditsInternal[0]\<close>\<close>
  CreditsExternal :: "credits option"
  CreditsTotal :: "credits option"
  YearTotals :: "total_row list option"  \<comment> \<open>\<open>YearTotals[0].YearTotal\<close>\<close>
  LevelTotals :: "total_row list option"  \<comment> \<open>\<open>LevelTotals[0].LevelTotal\<close>\<close>

record body =
  Error :: "string list option"
  ErrorCode :: "string list option"
  Weeks :: "(week_entry \<times> week_entry list) option option"
    \<comment> \<open>outer \<open>None\<close>: no \<open>Weeks\<close>; inner \<open>None\<close>: \<open>Weeks[0].Week\<close> is \<open>undefined\<close>;
        else the first element of \<open>Weeks[0].Week\<close> and the rest\<close>
  Students :: "student option"  \<comment> \<open>\<open>Students[0].Student[0]\<close>\<close>

type_synonym result = "(string \<times> body) list"
  \<comment> \<open>the deserialized object: its keys in order, each with its value\<close>

record reply =
  req_err :: "error option"  \<comment> \<open>\<open>err\<close> of the \<open>request\<close> callback\<close>
  parse_err :: "error option"  \<comment> \<open>\<open>err\<close> of the \<open>parseString\<close> callback\<close>
  parsed :: "result option"  \<comment> \<open>\<open>result\<close> of the \<open>parseString\<close> callback\<close>

section \<open>The session and \<open>fetch\<close>\<close>

record session =
  year :: nat
  TT :: string
  portal :: string
  UserAgent :: string
  WkNo :: "nat option"  \<comment> \<open>\<open>None\<close>: the property was never written\<close>

record options =
  opt_portal :: "string option"
  opt_year :: "nat option"
  opt_TT :: "string option"
  opt_UserAgent :: "string option"

definition constructor :: "string \<Rightarrow> nat \<Rightarrow> options option \<Rightarrow> error + session" where
  \<comment> \<open>lines 15-24; \<open>version\<close> is the package version, \<open>thisYear\<close> the clock's year\<close>
  "constructor version thisYear opts =
     (case opts of
        None \<Rightarrow> Inl (JsError ''No options provided'')
      | Some options \<Rightarrow>
          if \<not> truthy (opt_portal options)
          then Inl (JsError ''portal URL must be provided. e.g. `remote.takapuna.school.nz` '')
          else
            (let y = (case opt_year options of
                        None \<Rightarrow> thisYear
                      | Some v \<Rightarrow> if v = 0 then thisYear else v)
             in Inr \<lparr>year = y,
                     TT = js_str (js_or (opt_TT options) (Some (show_nat y @ ''TT''))),
                     portal = js_str (opt_portal options),
                     UserAgent = js_str (js_or (opt_UserAgent options)
                       (Some (''Katal API for KAMAR v'' @ version
                              @ '' (Cargo 3.69) [http://git.io/katal]''))),
                     WkNo = None\<rparr>))"

record credentials =
  username :: string
  key :: string
  authLevel :: "nat option"

type_synonym form = "(string \<times> string) list"

record request =
  uri :: string
  http_method :: string  \<comment> \<open>the property \<open>method\<close>\<close>
  form_data :: form
  headers :: "(string \<times> string) list"

definition settle :: "reply \<Rightarrow> result promise \<times> error option" where
  \<comment> \<open>lines 40-53, the two callbacks of \<open>fetch\<close>: the state of the promise they leave,
      and the exception that escapes them, if any. No \<open>reject\<close> returns, so the
      statements after it still run.\<close>
  "settle r =
     (let p1 = (case req_err r of None \<Rightarrow> Pending | Some e \<Rightarrow> reject e Pending);
          p2 = (case parse_err r of None \<Rightarrow> p1 | Some e \<Rightarrow> reject e p1)
      in case parsed r of
           None \<Rightarrow> (p2, Some TypeError)
         | Some res \<Rightarrow>
             (case res of
                [] \<Rightarrow> (p2, Some TypeError)
              | (thing, b) # _ \<Rightarrow>
                  (case Error b of
                     None \<Rightarrow> (resolve res p2, None)
                   | Some es \<Rightarrow>
                       (case ErrorCode b of
                          None \<Rightarrow> (p2, Some TypeError)
                        | Some cs \<Rightarrow>
                            (resolve res
                               (reject (RemoteError (nth_opt es 0) (nth_opt cs 0)) p2),
                             None)))))"

definition mk_request :: "session \<Rightarrow> form \<Rightarrow> request" where
  \<comment> \<open>lines 32-39\<close>
  "mk_request s f =
     \<lparr>uri = ''https://'' @ portal s @ ''/api/api.php'',
      http_method = ''POST'',
      form_data = f,
      headers = [(''content-type'', ''application/x-www-form-urlencoded''),
                 (''user-agent'', UserAgent s)]\<rparr>"

definition fetch :: "session \<Rightarrow> (request \<Rightarrow> reply) \<Rightarrow> form \<Rightarrow> result promise \<times> error option" where
  \<comment> \<open>lines 30-56; \<open>send\<close> stands for the transport and the deserializer\<close>
  "fetch s send f = settle (send (mk_request s f))"

section \<open>The timetable grid decoder (\<open>getTimetableForWeek\<close>)\<close>

record period =
  subject :: "string option"
  location :: "string option"
  teacher :: "string option"

definition decodePeriod :: "string option \<Rightarrow> error + period" where
  \<comment> \<open>lines 176-181: \<open>Px = HTMout[day][period].split('-')\<close>, then the period object\<close>
  "decodePeriod slot =
     (case slot of
        None \<Rightarrow> Inl TypeError
      | Some s \<Rightarrow>
          (let Px = split_js (CHR ''-'') s in
           Inr \<lparr>subject = nth_opt Px 2,
                location = js_or (nth_opt Px 4) (nth_opt Px 2),
                teacher = nth_opt Px 3\<rparr>))"

fun decodePeriods :: "string option list \<Rightarrow> error + period list" where
  \<comment> \<open>the loop over \<open>period\<close>: the first throw ends it\<close>
  "decodePeriods [] = Inr []"
| "decodePeriods (slot # slots) =
     bind_err (decodePeriod slot) (\<lambda>p.
     bind_err (decodePeriods slots) (\<lambda>ps. Inr (p # ps)))"

definition daySlots :: "string \<Rightarrow> string option list" where
  \<comment> \<open>lines 173-174: \<open>split('|')\<close>, then \<open>length = 8\<close>\<close>
  "daySlots raw = set_length 8 (split_js (CHR ''|'') raw)"

definition decodeDay :: "tt_week \<Rightarrow> nat \<Rightarrow> error + period list" where
  \<comment> \<open>one round of the loop over \<open>day\<close>, giving \<open>HTMout[day][1..7]\<close>\<close>
  "decodeDay wk day =
     (case wk (''D'' @ show_nat day) of
        None \<Rightarrow> Inl TypeError
      | Some raw \<Rightarrow> decodePeriods (map (\<lambda>p. daySlots raw ! p) [1..<8]))"

record timetable_week =
  weekNo :: nat
  MO :: "period list"
  TU :: "period list"
  WE :: "period list"
  TH :: "period list"
  FR :: "period list"

definition weekObject :: "tt_week \<Rightarrow> nat \<Rightarrow> error + timetable_week" where
  \<comment> \<open>lines 172-192: the loop over \<open>day\<close> and the object returned, for the days of
      one week. The object reads the slots 1 to 7 of each day, which the loop has
      written; the first content of \<open>HTMout\<close> and its slots 0 are not read.\<close>
  "weekObject wk WeekNumber =
     bind_err (decodeDay wk 1) (\<lambda>d1.
     bind_err (decodeDay wk 2) (\<lambda>d2.
     bind_err (decodeDay wk 3) (\<lambda>d3.
     bind_err (decodeDay wk 4) (\<lambda>d4.
     bind_err (decodeDay wk 5) (\<lambda>d5.
     Inr \<lparr>weekNo = WeekNumber, MO = d1, TU = d2, WE = d3, TH = d4, FR = d5\<rparr>)))))"

definition getTimetableForWeek :: "timetable_data option \<Rightarrow> nat \<Rightarrow> nat \<Rightarrow> error + timetable_week" where
  \<comment> \<open>lines 167-193; \<open>TTdata\<close> is the local \<open>TT\<close>, \<open>None\<close> when the path to
      \<open>TimetableData\<close> does not resolve\<close>
  "getTimetableForWeek TTdata thisWkNo weekOffset =
     (let WeekNumber = thisWkNo + weekOffset in
      case TTdata of
        None \<Rightarrow> Inl TypeError
      | Some weeks \<Rightarrow>
          (case weeks (''W'' @ show_nat WeekNumber) of
             None \<Rightarrow> Inl TypeError
           | Some wk \<Rightarrow> weekObject wk WeekNumber))"

record timetable =
  thisWk :: timetable_week
  nextWk :: timetable_week

definition timetablePath :: "result \<Rightarrow> timetable_data option" where
  \<comment> \<open>line 169: \<open>response.StudentTimetableResults.Students[0].Student[0].TimetableData\<close>\<close>
  "timetablePath response =
     (case map_of response ''StudentTimetableResults'' of
        None \<Rightarrow> None
      | Some b \<Rightarrow> (case Students b of None \<Rightarrow> None | Some st \<Rightarrow> TimetableData st))"

definition noAbsencesMsg :: string where
  "noAbsencesMsg = ''You must fetch the Absences before you can download the TimeTable - see https://github.com/TGS-App/API/issues/1''"

definition timetableForm :: "session \<Rightarrow> credentials \<Rightarrow> form" where
  \<comment> \<open>lines 153-165\<close>
  "timetableForm s c =
     (if authLevel c = Some 10
      then [(''Command'', ''GetTeacherTimetable''), (''Key'', key c), (''Grid'', TT s),
            (''Tchr'', username c)]
      else [(''Command'', ''GetStudentTimetable''), (''Key'', key c),
            (''StudentID'', username c), (''Grid'', TT s)])"

definition decodeTimetable :: "result \<Rightarrow> nat \<Rightarrow> error + timetable" where
  \<comment> \<open>lines 166-197, the body of the \<open>then\<close> callback\<close>
  "decodeTimetable response thisWkNo =
     bind_err (getTimetableForWeek (timetablePath response) thisWkNo 0) (\<lambda>a.
     bind_err (getTimetableForWeek (timetablePath response) thisWkNo 1) (\<lambda>b.
     Inr \<lparr>thisWk = a, nextWk = b\<rparr>))"

definition getTimeTable :: "session \<Rightarrow> credentials \<Rightarrow> (request \<Rightarrow> reply) \<Rightarrow> request list \<times> timetable promise" where
  \<comment> \<open>lines 145-200: the requests issued, and the promise returned.
      \<open>!thisWkNo\<close> holds for \<open>undefined\<close> and for \<open>0\<close>. The warning written to
      the console is left out.\<close>
  "getTimeTable s c send =
     (case WkNo s of
        None \<Rightarrow> ([], Rejected (StateError noAbsencesMsg))
      | Some thisWkNo \<Rightarrow>
          if thisWkNo = 0 then ([], Rejected (StateError noAbsencesMsg))
          else
            ([mk_request s (timetableForm s c)],
             (case fst (fetch s send (timetableForm s c)) of
                Pending \<Rightarrow> Pending
              | Rejected e \<Rightarrow> Rejected e
              | Fulfilled response \<Rightarrow>
                  (case decodeTimetable response thisWkNo of
                     Inl e \<Rightarrow> Rejected e
                   | Inr t \<Rightarrow> Fulfilled t))))"

section \<open>The attendance decoder (\<open>getAbsences\<close>)\<close>

definition daysManifest :: "string list" where
  "daysManifest = split_js (CHR '' '') ''Mon Tue Wed Thu Fri''"

definition dayStatus :: "day \<Rightarrow> string" where
  \<comment> \<open>line 110: \<open>(days[j]._ || '----------').substring(0, 7)\<close>\<close>
  "dayStatus d = take 7 (js_str (js_or (day_text d) (Some ''----------'')))"

type_synonym absence_week = "string \<rightharpoonup> string"
  \<comment> \<open>the object \<open>Absences[i]\<close>: the key \<open>$\<close> and one key per day\<close>

fun fillDays :: "day list \<Rightarrow> nat \<Rightarrow> absence_week \<Rightarrow> absence_week" where
  \<comment> \<open>lines 109-110, the loop over \<open>j\<close>; \<open>daysManifest[j]\<close> out of range is the
      property name \<open>undefined\<close>\<close>
  "fillDays [] j w = w"
| "fillDays (d # ds) j w =
     fillDays ds (Suc j) (w(js_str (nth_opt daysManifest j) \<mapsto> dayStatus d))"

definition decodeWeek :: "week_entry \<Rightarrow> error + absence_week" where
  \<comment> \<open>lines 105-110, one round of the loop over \<open>i\<close>\<close>
  "decodeWeek w =
     (case WeekStart w of
        None \<Rightarrow> Inl TypeError
      | Some ws \<Rightarrow>
          (case Days w of
             None \<Rightarrow> Inl TypeError
           | Some ds \<Rightarrow> Inr (fillDays ds 0 [''$'' \<mapsto> ws])))"

fun decodeWeeks :: "week_entry list \<Rightarrow> error + absence_week list" where
  "decodeWeeks [] = Inr []"
| "decodeWeeks (w # ws) =
     bind_err (decodeWeek w) (\<lambda>a.
     bind_err (decodeWeeks ws) (\<lambda>as. Inr (a # as)))"

definition absencesForm :: "session \<Rightarrow> credentials \<Rightarrow> form" where
  "absencesForm s c =
     [(''Command'', ''GetStudentAttendance''), (''Key'', key c),
      (''StudentID'', username c), (''Grid'', TT s)]"

definition decodeAbsences :: "session \<Rightarrow> result \<Rightarrow> session \<times> absence_week list promise" where
  \<comment> \<open>lines 96-116, the body of the \<open>then\<close> callback: the session it leaves and the
      promise. A throw leaves \<open>WkNo\<close> as it was.\<close>
  "decodeAbsences s response =
     (let none = (s\<lparr>WkNo := Some 1\<rparr>, Rejected (StateError ''No Absences setup, assuming week 1''))
      in case map_of response ''StudentAttendanceResults'' of
           None \<Rightarrow> none
         | Some b \<Rightarrow>
             (case Weeks b of
                None \<Rightarrow> none
              | Some None \<Rightarrow> (s, Rejected TypeError)
              | Some (Some (w, ws)) \<Rightarrow>
                  (case decodeWeeks (w # ws) of
                     Inl e \<Rightarrow> (s, Rejected e)
                   | Inr Absences \<Rightarrow>
                       (s\<lparr>WkNo := Some (length Absences)\<rparr>, Fulfilled Absences))))"

definition getAbsences :: "session \<Rightarrow> credentials \<Rightarrow> (request \<Rightarrow> reply) \<Rightarrow> session \<times> absence_week list promise" where
  \<comment> \<open>lines 89-118\<close>
  "getAbsences s c send =
     (case fst (fetch s send (absencesForm s c)) of
        Pending \<Rightarrow> (s, Pending)
      | Rejected e \<Rightarrow> (s, Rejected e)
      | Fulfilled response \<Rightarrow> decodeAbsences s response)"

section \<open>Grade normalization (\<open>colourGrade\<close>)\<close>

fun includes_js :: "string \<Rightarrow> string \<Rightarrow> bool" where
  \<comment> \<open>\<open>s.match(pat)\<close> is not null, for a pattern of letters only: \<open>pat\<close> occurs in \<open>s\<close>\<close>
  "includes_js [] pat = (pat = [])"
| "includes_js (c # cs) pat = (prefix pat (c # cs) \<or> includes_js cs pat)"

definition colourGrade :: "string \<Rightarrow> (string \<times> string) \<times> string list list" where
  \<comment> \<open>lines 326-334: the pair \<open>[orgGrade, grade]\<close>, and the arguments of each call of
      \<open>console.log\<close>. \<open>/Achieve(ment|d)/\<close> matches a string holding \<open>Achievement\<close> or
      \<open>Achieved\<close>.\<close>
  "colourGrade orgGrade =
     (if includes_js orgGrade ''Excellence'' then ((orgGrade, ''E''), [])
      else if includes_js orgGrade ''Merit'' then ((orgGrade, ''M''), [])
      else if includes_js orgGrade ''Not'' then ((orgGrade, ''N''), [])
      else if includes_js orgGrade ''Achievement'' \<or> includes_js orgGrade ''Achieved''
        then ((orgGrade, ''A''), [])
      else ((orgGrade, orgGrade), [[''Incomprehensible'', orgGrade]]))"

section \<open>The NCEA summary (\<open>getNCEASummary\<close>)\<close>

datatype cell =
    CellStr string  \<comment> \<open>a string, \<open>''\<close> for a blank cell\<close>
  | CellArr "string list"  \<comment> \<open>the array of a field\<close>
  | CellUndefined

datatype qlabel = QLevel nat | QName string

record summary =
  qualification :: "(qlabel \<times> string option) list"
  Internal :: "cell list"
  External :: "cell list"
  TotalCredits :: "cell list"  \<comment> \<open>the property \<open>Total\<close> of \<open>thisYear\<close>\<close>
  year_rows :: string  \<comment> \<open>the property \<open>year\<close>\<close>
  level_rows :: string  \<comment> \<open>the property \<open>level\<close>\<close>

definition credit_prop :: "'a credits_scheme \<Rightarrow> string \<Rightarrow> string list option" where
  \<comment> \<open>\<open>r[name]\<close> for the credit properties\<close>
  "credit_prop r name =
     (if name = ''NotAchieved'' then NotAchieved r
      else if name = ''Achieved'' then Achieved r
      else if name = ''Merit'' then Merit r
      else if name = ''Excellence'' then Excellence r
      else if name = ''Total'' then Total r
      else if name = ''Attempted'' then Attempted r
      else None)"

definition cols :: "string list" where
  "cols = split_js (CHR '' '') ''NotAchieved Achieved Merit Excellence Total Attempted''"

definition row_label :: "total_row \<Rightarrow> string \<Rightarrow> string list option" where
  \<comment> \<open>\<open>s[i][yt]\<close>\<close>
  "row_label r yt =
     (if yt = ''Year'' then Year r else if yt = ''Level'' then Level r else credit_prop r yt)"

definition totals :: "student \<Rightarrow> string \<Rightarrow> total_row list option" where
  \<comment> \<open>line 384: \<open>$[yt + 'Totals'][0][yt + 'Total']\<close>\<close>
  "totals st yt =
     (if yt = ''Year'' then YearTotals st else if yt = ''Level'' then LevelTotals st else None)"

definition tt_cell :: "total_row \<Rightarrow> string \<Rightarrow> string" where
  \<comment> \<open>line 391: one credit column of a row\<close>
  "tt_cell r col =
     ''<td>'' @ (case credit_prop r col of None \<Rightarrow> [] | Some f \<Rightarrow> js_str (nth_opt f 0)) @ ''</td>''"

definition tt_row :: "string \<Rightarrow> total_row \<Rightarrow> error + string" where
  \<comment> \<open>lines 389-391: \<open>r[i]\<close>\<close>
  "tt_row yt r =
     (case row_label r yt of
        None \<Rightarrow> Inl TypeError
      | Some l \<Rightarrow>
          Inr (''<td><strong>'' @ js_str (nth_opt l 0) @ ''</strong></td>''
               @ concat (map (tt_cell r) cols)))"

fun tt_rows :: "string \<Rightarrow> total_row list \<Rightarrow> error + string list" where
  "tt_rows yt [] = Inr []"
| "tt_rows yt (r # rs) =
     bind_err (tt_row yt r) (\<lambda>x.
     bind_err (tt_rows yt rs) (\<lambda>xs. Inr (x # xs)))"

definition tt :: "student \<Rightarrow> string \<Rightarrow> error + string" where
  \<comment> \<open>lines 383-394\<close>
  "tt st yt =
     (case totals st yt of
        None \<Rightarrow> Inl TypeError
      | Some s \<Rightarrow>
          bind_err (tt_rows yt s) (\<lambda>r.
          Inr (''<tr>'' @ join_js ''</tr><tr>'' r @ ''</tr>'')))"

definition blank_or :: "string list option \<Rightarrow> string list option \<Rightarrow> cell" where
  \<comment> \<open>\<open>!a ? '' : b\<close> for two fields: an array is truthy whatever it holds\<close>
  "blank_or a b =
     (case a of
        None \<Rightarrow> CellStr []
      | Some _ \<Rightarrow> (case b of None \<Rightarrow> CellUndefined | Some v \<Rightarrow> CellArr v))"

definition blanks :: "cell list" where
  "blanks = [CellStr [], CellStr [], CellStr [], CellStr [], CellStr [], CellStr []]"

definition six :: "credits option \<Rightarrow> cell list" where
  \<comment> \<open>lines 405-420, for \<open>CreditsInternal\<close> and \<open>CreditsExternal\<close>\<close>
  "six c =
     (case c of
        None \<Rightarrow> blanks
      | Some r \<Rightarrow>
          [blank_or (NotAchieved r) (NotAchieved r),
           blank_or (Achieved r) (Achieved r),
           blank_or (Merit r) (Merit r),
           blank_or (Excellence r) (Excellence r),
           blank_or (Total r) (Total r),
           blank_or (Attempted r) (Attempted r)])"

definition sixTotal :: "student \<Rightarrow> error + cell list" where
  \<comment> \<open>lines 421-428: the third cell tests \<open>CreditsInternal[0].Merit\<close>\<close>
  "sixTotal st =
     (case CreditsTotal st of
        None \<Rightarrow> Inr blanks
      | Some t \<Rightarrow>
          (case CreditsInternal st of
             None \<Rightarrow> Inl TypeError
           | Some i \<Rightarrow>
               Inr [blank_or (NotAchieved t) (NotAchieved t),
                    blank_or (Achieved t) (Achieved t),
                    blank_or (Merit i) (Merit t),
                    blank_or (Excellence t) (Excellence t),
                    blank_or (Total t) (Total t),
                    blank_or (Attempted t) (Attempted t)]))"

definition first_of :: "string list option \<Rightarrow> error + string option" where
  \<comment> \<open>\<open>f[0]\<close>\<close>
  "first_of f = (case f of None \<Rightarrow> Inl TypeError | Some a \<Rightarrow> Inr (nth_opt a 0))"

definition qualifications :: "student \<Rightarrow> error + (qlabel \<times> string option) list" where
  \<comment> \<open>lines 396-403\<close>
  "qualifications st =
     (case NCEA st of
        None \<Rightarrow> Inl TypeError
      | Some n \<Rightarrow>
          bind_err (first_of (L1NCEA n)) (\<lambda>q1.
          bind_err (first_of (L2NCEA n)) (\<lambda>q2.
          bind_err (first_of (L3NCEA n)) (\<lambda>q3.
          bind_err (first_of (NCEAUELIT n)) (\<lambda>q4.
          bind_err (first_of (NCEAL1LIT n)) (\<lambda>q5.
          bind_err (first_of (NCEANUM n)) (\<lambda>q6.
          Inr [(QLevel 1, q1), (QLevel 2, q2), (QLevel 3, q3),
               (QName ''UE Literacy'', q4), (QName ''L1 Literacy'', q5),
               (QName ''Numeracy'', q6)])))))))"

definition nceaSummary :: "student \<Rightarrow> error + summary" where
  \<comment> \<open>lines 395-432: the object literal, the second argument of \<open>resolve\<close>\<close>
  "nceaSummary st =
     bind_err (qualifications st) (\<lambda>q.
     bind_err (sixTotal st) (\<lambda>t.
     bind_err (tt st ''Year'') (\<lambda>y.
     bind_err (tt st ''Level'') (\<lambda>l.
     Inr \<lparr>qualification = q, Internal = six (CreditsInternal st),
          External = six (CreditsExternal st), TotalCredits = t,
          year_rows = y, level_rows = l\<rparr>))))"

datatype 'a js = JsUndefined | JsNull | JsVal 'a

definition call_resolve :: "'a js list \<Rightarrow> 'a js promise \<Rightarrow> 'a js promise" where
  \<comment> \<open>\<open>resolve(a, b, ...)\<close>: the resolving function of a promise has one parameter\<close>
  "call_resolve args p = resolve (case args of [] \<Rightarrow> JsUndefined | a # _ \<Rightarrow> a) p"

definition summaryForm :: "credentials \<Rightarrow> form" where
  "summaryForm c =
     [(''Command'', ''GetStudentNCEASummary''), (''Key'', key c), (''StudentID'', username c)]"

definition summaryStudent :: "result \<Rightarrow> student option" where
  \<comment> \<open>line 382: \<open>response.StudentNCEASummaryResults.Students[0].Student[0]\<close>\<close>
  "summaryStudent response =
     (case map_of response ''StudentNCEASummaryResults'' of
        None \<Rightarrow> None
      | Some b \<Rightarrow> Students b)"

definition getNCEASummary :: "session \<Rightarrow> credentials \<Rightarrow> (request \<Rightarrow> reply) \<Rightarrow> summary js promise" where
  \<comment> \<open>lines 375-435\<close>
  "getNCEASummary s c send =
     (case fst (fetch s send (summaryForm c)) of
        Pending \<Rightarrow> Pending
      | Rejected e \<Rightarrow> Rejected e
      | Fulfilled response \<Rightarrow>
          (case summaryStudent response of
             None \<Rightarrow> Rejected TypeError
           | Some st \<Rightarrow>
               (case nceaSummary st of
                  Inl e \<Rightarrow> Rejected e
                | Inr summ \<Rightarrow> call_resolve [JsNull, JsVal summ] Pending)))"

section \<open>The vCard exporter (\<open>makevCardFromDetails\<close>)\<close>

record details =
  \<comment> \<open>the properties of the object of \<open>getDetails\<close> that the exporter reads\<close>
  Names :: "string list"
  ID :: string
  Gender :: "string list"
  Ethnicity :: string
  Birthday :: "string list"
  LifeA_Phone :: string  \<comment> \<open>\<open>LifeA.Phone\<close>\<close>
  LifeA_Address :: string  \<comment> \<open>\<open>LifeA.Address\<close>\<close>
  EmergencyContact_Name :: string
  EmergencyContact_phCell :: string

definition LF :: char where
  "LF = CHR 0x0A"

definition escape_newlines :: "string \<Rightarrow> string" where
  \<comment> \<open>\<open>replace(/\n/g, '\\n')\<close>: each line feed becomes a backslash and an \<open>n\<close>\<close>
  "escape_newlines a = concat (map (\<lambda>ch. if ch = LF then [CHR 0x5C, CHR ''n''] else [ch]) a)"

definition vCardLines :: "session \<Rightarrow> string \<Rightarrow> credentials \<Rightarrow> details \<Rightarrow> string list" where
  \<comment> \<open>lines 465-480, the array; \<open>now\<close> is \<open>(new Date()).toISOString()\<close>\<close>
  "vCardLines s now c d =
     [''BEGIN:VCARD'',
      ''VERSION:4.0'',
      ''N:'' @ js_str (nth_opt (Names d) 2) @ '';'' @ js_str (nth_opt (Names d) 1) @ '';;;'',
      ''NICKNAME:'' @ js_str (nth_opt (Names d) 0),
      ''FN:'' @ js_str (nth_opt (Names d) 1),
      ''ORG:Takapuna Grammar School Student #'' @ ID d,
      ''GENDER:'' @ js_str (nth_opt (Gender d) 1),
      ''TITLE:'' @ Ethnicity d,
      ''PHOTO;MEDIATYPE=image/jpeg:https://'' @ portal s @ ''/api/img.php?Key='' @ key c
        @ ''&Stuid='' @ ID d,
      ''TEL;TYPE=home,voice;home=uri:'' @ LifeA_Phone d,
      ''ADR;TYPE=home;home='' @ [CHR 0x22] @ escape_newlines (LifeA_Address d) @ [CHR 0x22]
        @ '':;;'' @ escape_newlines (LifeA_Address d),
      ''EMAIL:'' @ ID d @ ''@tgs.school.nz'',
      ''REV:'' @ now,
      ''BDAY:'' @ js_str (nth_opt (Birthday d) 0),
      ''NOTE:Emergency Contact: '' @ EmergencyContact_Name d @ '' (''
        @ EmergencyContact_phCell d @ '')'',
      ''END:VCARD'']"

definition makevCardFromDetails :: "session \<Rightarrow> string \<Rightarrow> credentials \<Rightarrow> details \<Rightarrow> string" where
  \<comment> \<open>lines 464-481: the array joined with line feeds\<close>
  "makevCardFromDetails s now c d = join_js [LF] (vCardLines s now c d)"

definition vCardFields :: "session \<Rightarrow> string \<Rightarrow> credentials \<Rightarrow> details \<Rightarrow> string set" where
  \<comment> \<open>the strings, other than the address, that the lines of the card show\<close>
  "vCardFields s now c d =
     set (Names d) \<union> set (Gender d) \<union> set (Birthday d)
     \<union> {ID d, Ethnicity d, LifeA_Phone d, EmergencyContact_Name d, EmergencyContact_phCell d,
         portal s, key c, now}"

section \<open>Sample inputs\<close>

definition ex_raw :: string where
  \<comment> \<open>a day string: the header slot, two periods, five empty slots\<close>
  "ex_raw = ''D|A-B-Math-Smith-Room5|A-B-Math-Smith-|||||''"

definition ex_wk :: tt_week where
  "ex_wk = [''D1'' \<mapsto> ex_raw]"

definition blank_period :: period where
  "blank_period = \<lparr>subject = None, location = None, teacher = None\<rparr>"

definition ex_session :: session where
  "ex_session =
     \<lparr>year = 2024, TT = ''2024TT'', portal = ''school.example'',
      UserAgent = ''Katal API for KAMAR v1.0.0 (Cargo 3.69) [http://git.io/katal]'',
      WkNo = None\<rparr>"

definition ex_options :: options where
  "ex_options =
     \<lparr>opt_portal = Some ''school.example'', opt_year = Some 2024, opt_TT = None,
      opt_UserAgent = None\<rparr>"

definition ex_creds :: credentials where
  "ex_creds = \<lparr>username = ''15999'', key = ''k3y'', authLevel = None\<rparr>"

definition no_student :: student where
  "no_student =
     \<lparr>TimetableData = None, NCEA = None, CreditsInternal = None, CreditsExternal = None,
      CreditsTotal = None, YearTotals = None, LevelTotals = None\<rparr>"

definition no_body :: body where
  "no_body = \<lparr>Error = None, ErrorCode = None, Weeks = None, Students = None\<rparr>"

definition ok_reply :: "result \<Rightarrow> reply" where
  "ok_reply res = \<lparr>req_err = None, parse_err = None, parsed = Some res\<rparr>"

definition ex_week_entry :: week_entry where
  \<comment> \<open>a week with three days: a long text, a short text, no text\<close>
  "ex_week_entry =
     \<lparr>WeekStart = Some ''2024-01-29'',
      Days = Some [\<lparr>day_text = Some ''PPPPPPPPP''\<rparr>, \<lparr>day_text = Some ''PL''\<rparr>,
                   \<lparr>day_text = None\<rparr>]\<rparr>"

definition ex_attendance :: "nat \<Rightarrow> result" where
  \<comment> \<open>an attendance response of \<open>n\<close> weeks, for \<open>n\<close> at least 1\<close>
  "ex_attendance n =
     [(''StudentAttendanceResults'',
       no_body\<lparr>Weeks := Some (Some (ex_week_entry, replicate (n - 1) ex_week_entry))\<rparr>)]"

definition ex_days :: tt_week where
  "ex_days = [''D1'' \<mapsto> ex_raw, ''D2'' \<mapsto> ex_raw, ''D3'' \<mapsto> ex_raw, ''D4'' \<mapsto> ex_raw,
              ''D5'' \<mapsto> ex_raw]"

definition ex_timetable :: result where
  "ex_timetable =
     [(''StudentTimetableResults'',
       no_body\<lparr>Students :=
         Some (no_student\<lparr>TimetableData := Some [''W3'' \<mapsto> ex_days, ''W4'' \<mapsto> ex_days]\<rparr>)\<rparr>)]"

definition ex_send :: "nat \<Rightarrow> request \<Rightarrow> reply" where
  \<comment> \<open>a service that answers the attendance command with \<open>n\<close> weeks and the timetable
      command with the weeks 3 and 4\<close>
  "ex_send n req =
     (if map_of (form_data req) ''Command'' = Some ''GetStudentAttendance''
      then ok_reply (ex_attendance n)
      else ok_reply ex_timetable)"

definition ex_period :: "string \<Rightarrow> period" where
  "ex_period room = \<lparr>subject = Some ''Math'', location = Some room, teacher = Some ''Smith''\<rparr>"

definition ex_day_periods :: "period list" where
  "ex_day_periods =
     [ex_period ''Room5'', ex_period ''Math'', blank_period, blank_period, blank_period,
      blank_period, blank_period]"

definition ex_week_object :: "nat \<Rightarrow> timetable_week" where
  "ex_week_object n =
     \<lparr>weekNo = n, MO = ex_day_periods, TU = ex_day_periods, WE = ex_day_periods,
      TH = ex_day_periods, FR = ex_day_periods\<rparr>"

definition lone_error :: result where
  \<comment> \<open>a result with \<open>Error\<close> and no \<open>ErrorCode\<close>\<close>
  "lone_error = [(''CalendarResults'', no_body\<lparr>Error := Some [''Invalid Key'']\<rparr>)]"

definition error_pair :: result where
  "error_pair =
     [(''CalendarResults'',
       no_body\<lparr>Error := Some [''Invalid Key''], ErrorCode := Some [''-3'']\<rparr>)]"

definition ex_internal :: credits where
  "ex_internal =
     \<lparr>NotAchieved = Some [''0''], Achieved = Some [''12''], Merit = None,
      Excellence = Some [''4''], Total = Some [''16''], Attempted = Some [''16'']\<rparr>"

definition ex_total :: credits where
  "ex_total =
     \<lparr>NotAchieved = Some [''0''], Achieved = Some [''12''], Merit = Some [''3''],
      Excellence = Some [''4''], Total = Some [''19''], Attempted = Some [''19'']\<rparr>"

definition ex_year_row :: total_row where
  "ex_year_row =
     \<lparr>NotAchieved = Some [''0''], Achieved = Some [''12''], Merit = Some [''3''],
      Excellence = None, Total = Some [''15''], Attempted = Some [''15''],
      Year = Some [''2023''], Level = None\<rparr>"

definition ex_level_row :: total_row where
  \<comment> \<open>\<open>NotAchieved\<close> is absent, \<open>Excellence\<close> is present with the empty text\<close>
  "ex_level_row =
     \<lparr>NotAchieved = None, Achieved = Some [''12''], Merit = Some [''3''],
      Excellence = Some [[]], Total = Some [''15''], Attempted = Some [''15''],
      Year = None, Level = Some [''1'']\<rparr>"

definition ex_ncea :: ncea where
  "ex_ncea =
     \<lparr>L1NCEA = Some [''Achieved''], L2NCEA = Some [''''], L3NCEA = Some [''''],
      NCEAUELIT = Some [''Y''], NCEAL1LIT = Some [''Y''], NCEANUM = Some [''N'']\<rparr>"

definition ex_ncea_student :: student where
  "ex_ncea_student =
     \<lparr>TimetableData = None, NCEA = Some ex_ncea, CreditsInternal = Some ex_internal,
      CreditsExternal = None, CreditsTotal = Some ex_total,
      YearTotals = Some [ex_year_row], LevelTotals = Some [ex_level_row]\<rparr>"

definition ex_send_summary :: "request \<Rightarrow> reply" where
  "ex_send_summary req =
     ok_reply [(''StudentNCEASummaryResults'', no_body\<lparr>Students := Some ex_ncea_student\<rparr>)]"

definition ex_summary :: summary where
  \<comment> \<open>the object that \<open>getNCEASummary\<close> builds for \<open>ex_ncea_student\<close>\<close>
  "ex_summary =
     \<lparr>qualification =
        [(QLevel 1, Some ''Achieved''), (QLevel 2, Some []), (QLevel 3, Some []),
         (QName ''UE Literacy'', Some ''Y''), (QName ''L1 Literacy'', Some ''Y''),
         (QName ''Numeracy'', Some ''N'')],
      Internal =
        [CellArr [''0''], CellArr [''12''], CellStr [], CellArr [''4''], CellArr [''16''],
         CellArr [''16'']],
      External = [CellStr [], CellStr [], CellStr [], CellStr [], CellStr [], CellStr []],
      TotalCredits =
        [CellArr [''0''], CellArr [''12''], CellStr [], CellArr [''4''], CellArr [''19''],
         CellArr [''19'']],
      year_rows =
        ''<tr><td><strong>2023</strong></td><td>0</td><td>12</td><td>3</td><td></td><td>15</td><td>15</td></tr>'',
      level_rows =
        ''<tr><td><strong>1</strong></td><td></td><td>12</td><td>3</td><td></td><td>15</td><td>15</td></tr>''\<rparr>"

definition ex_details :: details where
  \<comment> \<open>an address of two lines\<close>
  "ex_details =
     \<lparr>Names = [''Sam'', ''Samuel Lee'', ''Lee''], ID = ''15999'', Gender = [''M'', ''Male''],
      Ethnicity = ''NZ European'', Birthday = [''2007-03-04'', ''16''],
      LifeA_Phone = ''09 555 0100'', LifeA_Address = ''1 Lake Rd'' @ [LF] @ ''Takapuna'',
      EmergencyContact_Name = ''Kim Lee'', EmergencyContact_phCell = ''021 555 0100''\<rparr>"

definition ex_now :: string where
  "ex_now = ''2024-02-01T00:00:00.000Z''"

section \<open>Properties of the decoders\<close>

subsection \<open>Strings and arrays\<close>

lemma bind_err_Inr_iff: "bind_err r f = Inr v \<longleftrightarrow> (\<exists>x. r = Inr x \<and> f x = Inr v)"
  by (cases r) (simp_all add: bind_err_def)

lemma split_js_nonempty: "split_js c s \<noteq> []"
  by (induction s) (auto split: list.splits)

lemma split_js_no_sep: "f \<in> set (split_js c s) \<Longrightarrow> c \<notin> set f"
  by (induction s arbitrary: f) (auto split: list.splits if_splits)

lemma split_js_free: "c \<notin> set f \<Longrightarrow> split_js c f = [f]"
  by (induction f) auto

lemma split_js_append: "c \<notin> set f \<Longrightarrow> split_js c (f @ c # rest) = f # split_js c rest"
  by (induction f) auto

lemma join_js_Cons: "join_js sep (f # g # fs) = f @ sep @ join_js sep (g # fs)"
  by (simp add: join_js_def)

text \<open>Splitting undoes joining, and joining undoes splitting: every string is the join of
  its fields, and the fields hold no separator.\<close>

lemma split_join:
  "fs \<noteq> [] \<Longrightarrow> \<forall>f \<in> set fs. c \<notin> set f \<Longrightarrow> split_js c (join_js [c] fs) = fs"
proof (induction fs rule: induct_list012)
  case 1
  then show ?case by simp
next
  case (2 f)
  then show ?case by (simp add: join_js_def split_js_free)
next
  case (3 f g fs)
  then show ?case by (simp add: join_js_Cons split_js_append)
qed

lemma join_split: "join_js [c] (split_js c s) = s"
proof (induction s)
  case Nil
  show ?case by (simp add: join_js_def)
next
  case (Cons x xs)
  then show ?case
    by (cases "split_js c xs") (auto simp: join_js_def split_js_nonempty)
qed

lemma length_set_length: "length (set_length n xs) = n"
  by (simp add: set_length_def)

lemma nth_set_length: "i < n \<Longrightarrow> set_length n xs ! i = nth_opt xs i"
  by (auto simp: set_length_def nth_opt_def nth_append)

subsection \<open>The timetable grid\<close>

lemma length_daySlots: "length (daySlots raw) = 8"
  by (simp add: daySlots_def length_set_length)

lemma decodePeriods_Inr:
  "decodePeriods slots = Inr ps \<Longrightarrow>
     length ps = length slots \<and> (\<forall>i < length slots. decodePeriod (slots ! i) = Inr (ps ! i))"
proof (induction slots arbitrary: ps)
  case Nil
  then show ?case by simp
next
  case (Cons a slots)
  then obtain p ps' where "decodePeriod a = Inr p" "decodePeriods slots = Inr ps'" "ps = p # ps'"
    by (auto simp: bind_err_Inr_iff)
  with Cons.IH[of ps'] show ?case by (auto simp: nth_Cons')
qed

lemma decodePeriods_ok:
  "\<forall>s \<in> set slots. s \<noteq> None \<Longrightarrow> \<exists>ps. decodePeriods slots = Inr ps"
proof (induction slots)
  case Nil
  then show ?case by simp
next
  case (Cons a slots)
  then show ?case by (auto simp: bind_err_def decodePeriod_def Let_def)
qed

lemma decodePeriod_join:
  assumes "fs \<noteq> []" "\<forall>f \<in> set fs. CHR ''-'' \<notin> set f"
  shows "decodePeriod (Some (join_js ''-'' fs)) =
    Inr \<lparr>subject = nth_opt fs 2,
         location = (case nth_opt fs 4 of
                       None \<Rightarrow> nth_opt fs 2
                     | Some l \<Rightarrow> if l = [] then nth_opt fs 2 else Some l),
         teacher = nth_opt fs 3\<rparr>"
  using split_join[OF assms]
  by (simp add: decodePeriod_def js_or_def truthy_def split: option.splits)

text \<open>
  C1. Every period slot of a decoded day is split on \<open>-\<close>; the period has the subject
  of field 2, the teacher of field 3, and the location of field 4 when that field is
  there and not empty, of field 2 otherwise. The slot is written as the join of its
  fields \<open>fs\<close>, which every string is (\<open>join_split\<close>, \<open>split_js_no_sep\<close>).
\<close>

theorem C1_period_fields:
  assumes day: "wk (''D'' @ show_nat d) = Some raw"
    and ok: "decodeDay wk d = Inr ps"
    and p: "1 \<le> p" "p \<le> 7"
    and slot: "nth_opt (split_js (CHR ''|'') raw) p = Some (join_js ''-'' fs)"
    and fs: "fs \<noteq> []" "\<forall>f \<in> set fs. CHR ''-'' \<notin> set f"
  shows "ps ! (p - 1) =
    \<lparr>subject = nth_opt fs 2,
     location = (case nth_opt fs 4 of
                   None \<Rightarrow> nth_opt fs 2
                 | Some l \<Rightarrow> if l = [] then nth_opt fs 2 else Some l),
     teacher = nth_opt fs 3\<rparr>"
proof -
  let ?slots = "map (\<lambda>p. daySlots raw ! p) [1..<8]"
  from day ok have "decodePeriods ?slots = Inr ps"
    by (simp add: decodeDay_def)
  from decodePeriods_Inr[OF this]
  have all: "\<forall>i<7. decodePeriod (daySlots raw ! Suc i) = Inr (ps ! i)"
    by simp
  from p obtain i where i: "p = Suc i" "i < 7"
    by (cases p) auto
  with all have "decodePeriod (daySlots raw ! p) = Inr (ps ! (p - 1))"
    by simp
  moreover from p slot have "daySlots raw ! p = Some (join_js ''-'' fs)"
    by (simp add: daySlots_def nth_set_length)
  ultimately show ?thesis
    using decodePeriod_join[OF fs] by simp
qed

lemma split_ex_raw:
  "split_js (CHR ''|'') ex_raw =
     [''D'', ''A-B-Math-Smith-Room5'', ''A-B-Math-Smith-'', [], [], [], [], []]"
  by (simp add: ex_raw_def)

lemma decodeDay_ex:
  "decodeDay ex_wk 1 =
     Inr [\<lparr>subject = Some ''Math'', location = Some ''Room5'', teacher = Some ''Smith''\<rparr>,
          \<lparr>subject = Some ''Math'', location = Some ''Math'', teacher = Some ''Smith''\<rparr>,
          blank_period, blank_period, blank_period, blank_period, blank_period]"
  by (simp add: decodeDay_def ex_wk_def show_nat.simps digit_char_def daySlots_def
      split_ex_raw set_length_def upt_rec decodePeriod_def bind_err_def nth_opt_def
      js_or_def truthy_def blank_period_def)

theorem C1_period_fields_witness:
  "ex_wk (''D'' @ show_nat 1) = Some ex_raw
   \<and> nth_opt (split_js (CHR ''|'') ex_raw) 1
       = Some (join_js ''-'' [''A'', ''B'', ''Math'', ''Smith'', ''Room5''])
   \<and> nth_opt (split_js (CHR ''|'') ex_raw) 2
       = Some (join_js ''-'' [''A'', ''B'', ''Math'', ''Smith'', []])
   \<and> (\<exists>ps. decodeDay ex_wk 1 = Inr ps
        \<and> ps ! 0 = \<lparr>subject = Some ''Math'', location = Some ''Room5'', teacher = Some ''Smith''\<rparr>
        \<and> ps ! 1 = \<lparr>subject = Some ''Math'', location = Some ''Math'', teacher = Some ''Smith''\<rparr>)"
proof -
  have day: "ex_wk (''D'' @ show_nat 1) = Some ex_raw"
    by (simp add: ex_wk_def show_nat.simps digit_char_def)
  have s1: "nth_opt (split_js (CHR ''|'') ex_raw) 1
      = Some (join_js ''-'' [''A'', ''B'', ''Math'', ''Smith'', ''Room5''])"
    by (simp add: split_ex_raw nth_opt_def join_js_def)
  have s2: "nth_opt (split_js (CHR ''|'') ex_raw) 2
      = Some (join_js ''-'' [''A'', ''B'', ''Math'', ''Smith'', []])"
    by (simp add: split_ex_raw nth_opt_def join_js_def)
  obtain ps where ok: "decodeDay ex_wk 1 = Inr ps"
    using decodeDay_ex by blast
  have "ps ! (1 - 1) = \<lparr>subject = Some ''Math'', location = Some ''Room5'', teacher = Some ''Smith''\<rparr>"
    using C1_period_fields[OF day ok _ _ s1] by (simp add: nth_opt_def)
  moreover have "ps ! (2 - 1) = \<lparr>subject = Some ''Math'', location = Some ''Math'', teacher = Some ''Smith''\<rparr>"
    using C1_period_fields[OF day ok _ _ s2] by (simp add: nth_opt_def)
  ultimately show ?thesis using day s1 s2 ok by simp
qed

text \<open>The day's array always has 8 slots, and a day decodes exactly when its string
  splits into 8 slots or more, that is when it holds 7 delimiters or more.\<close>

lemma decodeDay_ok_iff:
  assumes "wk (''D'' @ show_nat d) = Some raw"
  shows "(\<exists>ps. decodeDay wk d = Inr ps) \<longleftrightarrow> 8 \<le> length (split_js (CHR ''|'') raw)"
proof
  assume "\<exists>ps. decodeDay wk d = Inr ps"
  then obtain ps where "decodePeriods (map (\<lambda>p. daySlots raw ! p) [1..<8]) = Inr ps"
    using assms by (auto simp: decodeDay_def)
  from decodePeriods_Inr[OF this] have "decodePeriod (daySlots raw ! 7) = Inr (ps ! 6)"
    by (auto simp: nth_map_upt dest: spec[of _ 6])
  then have "daySlots raw ! 7 \<noteq> None"
    by (auto simp: decodePeriod_def split: option.splits)
  then show "8 \<le> length (split_js (CHR ''|'') raw)"
    by (simp add: daySlots_def nth_set_length nth_opt_def split: if_splits)
next
  assume len: "8 \<le> length (split_js (CHR ''|'') raw)"
  have "\<forall>s \<in> set (map (\<lambda>p. daySlots raw ! p) [1..<8]). s \<noteq> None"
    using len by (auto simp: daySlots_def nth_set_length nth_opt_def)
  from decodePeriods_ok[OF this] show "\<exists>ps. decodeDay wk d = Inr ps"
    using assms by (simp add: decodeDay_def)
qed

text \<open>
  C2. The day's string is split on \<open>|\<close> and the array is set to 8 slots; the claim
  that decoding the periods 1 to 7 then never fails does not hold for a string of
  fewer than 8 slots: the added slots are holes, and \<open>split\<close> of \<open>undefined\<close>
  throws. Here the day string has two slots.
\<close>

theorem C2_short_day_throws:
  "split_js (CHR ''|'') ''D|A-B-Math-Smith-Room5'' = [''D'', ''A-B-Math-Smith-Room5'']
   \<and> daySlots ''D|A-B-Math-Smith-Room5'' =
       [Some ''D'', Some ''A-B-Math-Smith-Room5'', None, None, None, None, None, None]
   \<and> decodeDay [''D1'' \<mapsto> ''D|A-B-Math-Smith-Room5''] 1 = Inl TypeError"
  by (simp add: decodeDay_def show_nat.simps digit_char_def daySlots_def
      set_length_def upt_rec decodePeriod_def bind_err_def nth_opt_def
      js_or_def truthy_def eval_nat_numeral)

subsection \<open>The session and the week index\<close>

lemma constructor_ex: "constructor ''1.0.0'' 2026 (Some ex_options) = Inr ex_session"
  by (simp add: constructor_def ex_options_def ex_session_def truthy_def js_str_def js_or_def
      show_nat.simps digit_char_def)

lemma constructor_fresh: "constructor v y opts = Inr s \<Longrightarrow> WkNo s = None"
  by (auto simp: constructor_def Let_def split: option.splits if_splits)

text \<open>
  C4. On a fresh session, one that the constructor has just made and on which
  \<open>getAbsences\<close> has not run, \<open>getTimeTable\<close> is rejected with the error the spec
  calls StateError, and no request is issued.
\<close>

theorem C4_fresh_session_StateError:
  "constructor v y opts = Inr s \<Longrightarrow> getTimeTable s c send = ([], Rejected (StateError noAbsencesMsg))"
  by (simp add: getTimeTable_def constructor_fresh)

theorem C4_fresh_session_StateError_witness:
  "constructor ''1.0.0'' 2026 (Some ex_options) = Inr ex_session
   \<and> getTimeTable ex_session ex_creds (ex_send 3) = ([], Rejected (StateError noAbsencesMsg))"
  using C4_fresh_session_StateError[OF constructor_ex, of ex_creds "ex_send 3"] constructor_ex
  by simp

subsection \<open>Remote errors in \<open>fetch\<close>\<close>

lemma fetch_ok:
  "send (mk_request s f) = ok_reply ((k, b) # rest) \<Longrightarrow> Error b = None \<Longrightarrow>
     fetch s send f = (Fulfilled ((k, b) # rest), None)"
  by (simp add: fetch_def settle_def ok_reply_def resolve_def)

text \<open>
  C7, as amended. When the transport and the deserializer report no error and the sole
  top-level object has an \<open>Error\<close> field and an \<open>ErrorCode\<close> field, the promise of
  \<open>fetch\<close> is rejected with the error of message \<open>Error[0]\<close> and code
  \<open>ErrorCode[0]\<close>, and the result is not delivered; when it has no \<open>Error\<close> field,
  the promise is fulfilled with the deserialized root, unchanged.
\<close>

theorem C7_remote_error:
  assumes "send (mk_request s f) = r"
    and "req_err r = None" and "parse_err r = None"
    and "parsed r = Some [(k, b)]"
  shows "(\<forall>es cs. Error b = Some es \<and> ErrorCode b = Some cs \<longrightarrow>
            fetch s send f = (Rejected (RemoteError (nth_opt es 0) (nth_opt cs 0)), None))
       \<and> (Error b = None \<longrightarrow> fetch s send f = (Fulfilled [(k, b)], None))"
  using assms by (auto simp: fetch_def settle_def resolve_def reject_def)

theorem C7_remote_error_witness:
  "fetch ex_session (\<lambda>req. ok_reply error_pair) [(''Command'', ''GetCalendar'')]
     = (Rejected (RemoteError (Some ''Invalid Key'') (Some ''-3'')), None)
   \<and> fetch ex_session (ex_send 3) [(''Command'', ''GetStudentAttendance'')]
     = (Fulfilled (ex_attendance 3), None)"
proof -
  have "fetch ex_session (\<lambda>req. ok_reply error_pair) [(''Command'', ''GetCalendar'')]
     = (Rejected (RemoteError (Some ''Invalid Key'') (Some ''-3'')), None)"
    using C7_remote_error[of "\<lambda>req. ok_reply error_pair" ex_session
        "[(''Command'', ''GetCalendar'')]" "ok_reply error_pair" "''CalendarResults''"
        "no_body\<lparr>Error := Some [''Invalid Key''], ErrorCode := Some [''-3'']\<rparr>"]
    by (simp add: ok_reply_def error_pair_def nth_opt_def)
  moreover have "fetch ex_session (ex_send 3) [(''Command'', ''GetStudentAttendance'')]
     = (Fulfilled (ex_attendance 3), None)"
    using C7_remote_error[of "ex_send 3" ex_session
        "[(''Command'', ''GetStudentAttendance'')]" "ok_reply (ex_attendance 3)"
        "''StudentAttendanceResults''"
        "no_body\<lparr>Weeks := Some (Some (ex_week_entry, replicate (3 - 1) ex_week_entry))\<rparr>"]
    by (simp add: ok_reply_def ex_send_def mk_request_def ex_attendance_def no_body_def)
  ultimately show ?thesis by simp
qed

text \<open>
  C7 as stated fails for a result with an \<open>Error\<close> field and no \<open>ErrorCode\<close> field:
  building the error object reads \<open>ErrorCode[0]\<close> of \<open>undefined\<close>, which throws
  before \<open>reject\<close> is called, so the promise is not rejected with a remote error.
\<close>

theorem C7_lone_error_counterexample:
  "fetch ex_session (\<lambda>req. ok_reply lone_error) [(''Command'', ''GetCalendar'')]
     = (Pending, Some TypeError)"
  by (simp add: fetch_def settle_def ok_reply_def lone_error_def no_body_def)

subsection \<open>Attendance\<close>

lemma daysManifest_eq: "daysManifest = [''Mon'', ''Tue'', ''Wed'', ''Thu'', ''Fri'']"
  by (simp add: daysManifest_def)

lemma day_key_inj:
  assumes "m < 5" and "js_str (nth_opt daysManifest i) = daysManifest ! m"
  shows "i = m"
proof -
  from assms(1) have m: "m = 0 \<or> m = 1 \<or> m = 2 \<or> m = 3 \<or> m = 4" by arith
  have i: "i = 0 \<or> i = 1 \<or> i = 2 \<or> i = 3 \<or> i = 4 \<or> 5 \<le> i" by arith
  from m i assms(2) show ?thesis
    by (auto simp: daysManifest_eq nth_opt_def js_str_def)
qed

lemma fillDays_other:
  "\<forall>i < length ds. js_str (nth_opt daysManifest (j + i)) \<noteq> k \<Longrightarrow> fillDays ds j w k = w k"
proof (induction ds arbitrary: j w)
  case Nil
  then show ?case by simp
next
  case (Cons d ds)
  have "\<forall>i < length ds. js_str (nth_opt daysManifest (Suc j + i)) \<noteq> k"
    using Cons.prems by (auto dest: spec[of _ "Suc i" for i])
  from Cons.IH[OF this] Cons.prems show ?case
    by (auto dest: spec[of _ 0])
qed

lemma fillDays_at:
  "m < 5 \<Longrightarrow> j \<le> m \<Longrightarrow> m - j < length ds \<Longrightarrow>
     fillDays ds j w (daysManifest ! m) = Some (dayStatus (ds ! (m - j)))"
proof (induction ds arbitrary: j w)
  case Nil
  then show ?case by simp
next
  case (Cons d ds)
  show ?case
  proof (cases "j = m")
    case True
    have "\<forall>i < length ds. js_str (nth_opt daysManifest (Suc j + i)) \<noteq> daysManifest ! m"
      using day_key_inj[OF Cons.prems(1)] True by fastforce
    from fillDays_other[OF this] True Cons.prems(1) show ?thesis
      by (simp add: nth_opt_def js_str_def daysManifest_eq)
  next
    case False
    with Cons.prems have "Suc j \<le> m" "m - Suc j < length ds" by auto
    from Cons.IH[OF Cons.prems(1) this] False Cons.prems show ?thesis
      by (simp add: Suc_diff_Suc)
  qed
qed

lemma length_dayStatus: "length (dayStatus d) \<le> 7"
  by (simp add: dayStatus_def)

text \<open>
  C6, as amended. In a decoded attendance week, the status of each weekday slot that
  the response has (the first five) is the first 7 characters of the slot's text: at
  most 7 characters long, not padded; when the slot has no text, or an empty one, the
  status is the placeholder of 7 dashes.
\<close>

theorem C6_status_first_seven:
  assumes "decodeWeek w = Inr a" and "Days w = Some ds" and "j < length ds" and "j < 5"
  shows "\<exists>st. a (daysManifest ! j) = Some st
     \<and> length st \<le> 7
     \<and> (\<forall>t. day_text (ds ! j) = Some t \<and> t \<noteq> [] \<longrightarrow> st = take 7 t)
     \<and> (day_text (ds ! j) = None \<or> day_text (ds ! j) = Some [] \<longrightarrow> st = ''-------'')"
proof -
  from assms(1,2) obtain ws where a: "a = fillDays ds 0 [''$'' \<mapsto> ws]"
    by (auto simp: decodeWeek_def split: option.splits)
  have "a (daysManifest ! j) = Some (dayStatus (ds ! j))"
    using fillDays_at[of j 0 ds] assms(3,4) a by simp
  moreover have "length (dayStatus (ds ! j)) \<le> 7"
    by (rule length_dayStatus)
  moreover have "\<forall>t. day_text (ds ! j) = Some t \<and> t \<noteq> [] \<longrightarrow> dayStatus (ds ! j) = take 7 t"
    by (simp add: dayStatus_def js_or_def truthy_def js_str_def)
  moreover have "day_text (ds ! j) = None \<or> day_text (ds ! j) = Some [] \<longrightarrow> dayStatus (ds ! j) = ''-------''"
    by (auto simp: dayStatus_def js_or_def truthy_def js_str_def)
  ultimately show ?thesis by blast
qed

lemma decodeWeek_ex:
  "decodeWeek ex_week_entry =
     Inr [''$'' \<mapsto> ''2024-01-29'', ''Mon'' \<mapsto> ''PPPPPPP'', ''Tue'' \<mapsto> ''PL'', ''Wed'' \<mapsto> ''-------'']"
  by (simp add: decodeWeek_def ex_week_entry_def daysManifest_eq nth_opt_def js_str_def
      dayStatus_def js_or_def truthy_def)

theorem C6_status_first_seven_witness:
  "Days ex_week_entry = Some [\<lparr>day_text = Some ''PPPPPPPPP''\<rparr>, \<lparr>day_text = Some ''PL''\<rparr>, \<lparr>day_text = None\<rparr>]
   \<and> (\<exists>a. decodeWeek ex_week_entry = Inr a
        \<and> a ''Mon'' = Some ''PPPPPPP'' \<and> a ''Tue'' = Some ''PL'' \<and> a ''Wed'' = Some ''-------'')"
proof -
  let ?ds = "[\<lparr>day_text = Some ''PPPPPPPPP''\<rparr>, \<lparr>day_text = Some ''PL''\<rparr>, \<lparr>day_text = None\<rparr>]"
  have ds: "Days ex_week_entry = Some ?ds"
    by (simp add: ex_week_entry_def)
  obtain a where a: "decodeWeek ex_week_entry = Inr a"
    using decodeWeek_ex by blast
  have "a ''Mon'' = Some ''PPPPPPP''"
    using C6_status_first_seven[OF a ds, of 0] by (simp add: daysManifest_eq)
  moreover have "a ''Tue'' = Some ''PL''"
    using C6_status_first_seven[OF a ds, of 1] by (simp add: daysManifest_eq)
  moreover have "a ''Wed'' = Some ''-------''"
    using C6_status_first_seven[OF a ds, of 2] by (simp add: daysManifest_eq)
  ultimately show ?thesis using a ds by simp
qed

text \<open>
  C6 as stated fails for a text shorter than 7 characters: \<open>substring(0, 7)\<close> cuts
  and never pads, so the status of the text \<open>PL\<close> has 2 characters.
\<close>

theorem C6_short_text_counterexample:
  "dayStatus \<lparr>day_text = Some ''PL''\<rparr> = ''PL''
   \<and> length (dayStatus \<lparr>day_text = Some ''PL''\<rparr>) \<noteq> 7
   \<and> (case decodeWeek ex_week_entry of Inl e \<Rightarrow> False | Inr a \<Rightarrow> a ''Tue'' = Some ''PL'')"
  by (simp add: decodeWeek_ex dayStatus_def js_or_def truthy_def js_str_def)

subsection \<open>From attendance to timetable\<close>

lemma decodeWeeks_length: "decodeWeeks Ar = Inr as \<Longrightarrow> length as = length Ar"
proof (induction Ar arbitrary: as)
  case Nil
  then show ?case by simp
next
  case (Cons w ws)
  then show ?case by (auto simp: bind_err_Inr_iff)
qed

lemma weekObject_weekNo: "weekObject wk n = Inr obj \<Longrightarrow> weekNo obj = n"
  by (auto simp: weekObject_def bind_err_Inr_iff)

lemma getAbsences_Fulfilled:
  assumes "fst (fetch s sendA (absencesForm s c)) = Fulfilled response"
    and "map_of response ''StudentAttendanceResults'' = Some b"
    and "Weeks b = Some (Some (w, ws))"
    and "getAbsences s c sendA = (s', Fulfilled Absences)"
  shows "s' = s\<lparr>WkNo := Some (length (w # ws))\<rparr> \<and> decodeWeeks (w # ws) = Inr Absences"
  using assms decodeWeeks_length[of "w # ws"]
  by (auto simp: getAbsences_def decodeAbsences_def Let_def split: sum.splits)

lemma decodeTimetable_Inr_iff:
  assumes "timetablePath r = Some weeks"
  shows "decodeTimetable r n = Inr t \<longleftrightarrow>
    (\<exists>w1 w2. weeks (''W'' @ show_nat n) = Some w1 \<and> weeks (''W'' @ show_nat (n + 1)) = Some w2
       \<and> weekObject w1 n = Inr (thisWk t) \<and> weekObject w2 (n + 1) = Inr (nextWk t))"
proof -
  have eq: "\<And>a b. (\<lparr>thisWk = a, nextWk = b\<rparr> = t) = (a = thisWk t \<and> b = nextWk t)"
    by (cases t) auto
  show ?thesis
    using assms
    by (auto simp: decodeTimetable_def getTimetableForWeek_def bind_err_Inr_iff eq
        split: option.splits)
qed

lemma fetch_attendance_ex:
  "fetch s (ex_send n) (absencesForm s c) = (Fulfilled (ex_attendance n), None)"
  by (simp add: fetch_def settle_def resolve_def ok_reply_def ex_send_def mk_request_def
      absencesForm_def ex_attendance_def no_body_def)

lemma fetch_timetable_ex:
  "fetch s (ex_send n) (timetableForm s c) = (Fulfilled ex_timetable, None)"
  by (simp add: fetch_def settle_def resolve_def ok_reply_def ex_send_def mk_request_def
      timetableForm_def ex_timetable_def no_body_def)

lemma decodeWeeks_replicate:
  "decodeWeek w = Inr a \<Longrightarrow> decodeWeeks (replicate n w) = Inr (replicate n a)"
  by (induction n) (simp_all add: bind_err_def)

lemma getAbsences_ex:
  "getAbsences ex_session ex_creds (ex_send (Suc n)) =
     (ex_session\<lparr>WkNo := Some (Suc n)\<rparr>,
      Fulfilled (replicate (Suc n) [''$'' \<mapsto> ''2024-01-29'', ''Mon'' \<mapsto> ''PPPPPPP'',
                                    ''Tue'' \<mapsto> ''PL'', ''Wed'' \<mapsto> ''-------'']))"
  using decodeWeeks_replicate[OF decodeWeek_ex, of "Suc n"]
  by (simp add: getAbsences_def fetch_attendance_ex decodeAbsences_def ex_attendance_def
      no_body_def)

lemma decodeDay_raw:
  "wk (''D'' @ show_nat d) = Some ex_raw \<Longrightarrow> decodeDay wk d = Inr ex_day_periods"
  using decodeDay_ex
  by (simp add: decodeDay_def ex_wk_def show_nat.simps digit_char_def
      ex_day_periods_def ex_period_def)

lemma ex_days_keys:
  "ex_days (''D'' @ show_nat 1) = Some ex_raw" "ex_days (''D'' @ show_nat 2) = Some ex_raw"
  "ex_days (''D'' @ show_nat 3) = Some ex_raw" "ex_days (''D'' @ show_nat 4) = Some ex_raw"
  "ex_days (''D'' @ show_nat 5) = Some ex_raw"
  by (simp_all add: ex_days_def show_nat.simps digit_char_def)

lemma weekObject_ex: "weekObject ex_days n = Inr (ex_week_object n)"
  by (simp add: weekObject_def decodeDay_raw[of ex_days 1, OF ex_days_keys(1), simplified]
      decodeDay_raw[of ex_days 2, OF ex_days_keys(2)]
      decodeDay_raw[of ex_days 3, OF ex_days_keys(3)]
      decodeDay_raw[of ex_days 4, OF ex_days_keys(4)]
      decodeDay_raw[of ex_days 5, OF ex_days_keys(5)] bind_err_def ex_week_object_def)

lemma timetablePath_ex:
  "timetablePath ex_timetable = Some [''W3'' \<mapsto> ex_days, ''W4'' \<mapsto> ex_days]"
  by (simp add: timetablePath_def ex_timetable_def no_body_def no_student_def)

text \<open>
  C3. After a successful attendance decode of a response with \<open>N\<close> week entries (the
  array \<open>Weeks[0].Week\<close>, its first element \<open>w\<close> and the rest \<open>ws\<close>), the session's
  \<open>WkNo\<close> is \<open>N\<close>; \<open>getAbsences\<close> is the only operation that returns a changed
  session. A following \<open>getTimeTable\<close> issues its request, and when the response
  arrives it is fulfilled exactly when the day collections under the keys \<open>W\<close>
  followed by \<open>N\<close> and by \<open>N + 1\<close> both decode; the two weeks returned carry the
  numbers \<open>N\<close> and \<open>N + 1\<close>.
\<close>

theorem C3_weekIndex_drives_timetable:
  assumes fetchA: "fst (fetch s sendA (absencesForm s c)) = Fulfilled response"
    and sar: "map_of response ''StudentAttendanceResults'' = Some b"
    and wks: "Weeks b = Some (Some (w, ws))"
    and ok: "getAbsences s c sendA = (s', Fulfilled Absences)"
    and fetchT: "fst (fetch s' sendT (timetableForm s' c')) = Fulfilled r"
    and path: "timetablePath r = Some weeks"
  shows "WkNo s' = Some (length (w # ws))
    \<and> length Absences = length (w # ws)
    \<and> fst (getTimeTable s' c' sendT) = [mk_request s' (timetableForm s' c')]
    \<and> (snd (getTimeTable s' c' sendT) = Fulfilled t \<longleftrightarrow>
         (\<exists>w1 w2. weeks (''W'' @ show_nat (length (w # ws))) = Some w1
            \<and> weeks (''W'' @ show_nat (length (w # ws) + 1)) = Some w2
            \<and> weekObject w1 (length (w # ws)) = Inr (thisWk t)
            \<and> weekObject w2 (length (w # ws) + 1) = Inr (nextWk t)))
    \<and> (snd (getTimeTable s' c' sendT) = Fulfilled t \<longrightarrow>
         weekNo (thisWk t) = length (w # ws) \<and> weekNo (nextWk t) = length (w # ws) + 1)"
proof -
  let ?N = "length (w # ws)"
  note dec = getAbsences_Fulfilled[OF fetchA sar wks ok]
  from dec have wk: "WkNo s' = Some ?N" by simp
  from dec decodeWeeks_length[of "w # ws" Absences] have len: "length Absences = ?N" by simp
  have req: "fst (getTimeTable s' c' sendT) = [mk_request s' (timetableForm s' c')]"
    using wk by (simp add: getTimeTable_def)
  have res: "snd (getTimeTable s' c' sendT) = Fulfilled t \<longleftrightarrow> decodeTimetable r ?N = Inr t"
    using wk fetchT by (auto simp: getTimeTable_def split: sum.splits)
  note iff = decodeTimetable_Inr_iff[OF path, of ?N t]
  have nos: "snd (getTimeTable s' c' sendT) = Fulfilled t \<longrightarrow>
         weekNo (thisWk t) = ?N \<and> weekNo (nextWk t) = ?N + 1"
    using res iff weekObject_weekNo by blast
  from res iff have it: "snd (getTimeTable s' c' sendT) = Fulfilled t \<longleftrightarrow>
         (\<exists>w1 w2. weeks (''W'' @ show_nat ?N) = Some w1
            \<and> weeks (''W'' @ show_nat (?N + 1)) = Some w2
            \<and> weekObject w1 ?N = Inr (thisWk t)
            \<and> weekObject w2 (?N + 1) = Inr (nextWk t))"
    by (rule trans)
  from wk len req it nos show ?thesis by (intro conjI)
qed

theorem C3_weekIndex_drives_timetable_witness:
  "getAbsences ex_session ex_creds (ex_send 3) =
     (ex_session\<lparr>WkNo := Some 3\<rparr>,
      Fulfilled (replicate 3 [''$'' \<mapsto> ''2024-01-29'', ''Mon'' \<mapsto> ''PPPPPPP'', ''Tue'' \<mapsto> ''PL'',
                              ''Wed'' \<mapsto> ''-------'']))
   \<and> WkNo (ex_session\<lparr>WkNo := Some 3\<rparr>) = Some 3
   \<and> getTimeTable (ex_session\<lparr>WkNo := Some 3\<rparr>) ex_creds (ex_send 3) =
      ([mk_request (ex_session\<lparr>WkNo := Some 3\<rparr>)
          (timetableForm (ex_session\<lparr>WkNo := Some 3\<rparr>) ex_creds)],
       Fulfilled \<lparr>thisWk = ex_week_object 3, nextWk = ex_week_object 4\<rparr>)"
proof -
  let ?s' = "ex_session\<lparr>WkNo := Some 3\<rparr>"
  let ?ws = "replicate 2 ex_week_entry"
  let ?b = "no_body\<lparr>Weeks := Some (Some (ex_week_entry, ?ws))\<rparr>"
  let ?t = "\<lparr>thisWk = ex_week_object 3, nextWk = ex_week_object 4\<rparr>"
  let ?a = "[''$'' \<mapsto> ''2024-01-29'', ''Mon'' \<mapsto> ''PPPPPPP'', ''Tue'' \<mapsto> ''PL'', ''Wed'' \<mapsto> ''-------'']"
  have three: "Suc 2 = 3" by simp
  have abs: "getAbsences ex_session ex_creds (ex_send 3) = (?s', Fulfilled (replicate 3 ?a))"
    using getAbsences_ex[of 2] unfolding three .
  have fetchA: "fst (fetch ex_session (ex_send 3) (absencesForm ex_session ex_creds))
      = Fulfilled (ex_attendance 3)"
    by (simp add: fetch_attendance_ex)
  have sar: "map_of (ex_attendance 3) ''StudentAttendanceResults'' = Some ?b"
    by (simp add: ex_attendance_def)
  have wks: "Weeks ?b = Some (Some (ex_week_entry, ?ws))"
    by simp
  have fetchT: "fst (fetch ?s' (ex_send 3) (timetableForm ?s' ex_creds)) = Fulfilled ex_timetable"
    by (simp add: fetch_timetable_ex)
  note C3 = C3_weekIndex_drives_timetable[OF fetchA sar wks abs fetchT timetablePath_ex, of ?t]
  have keys: "show_nat 3 = ''3''" "show_nat 4 = ''4''"
    by (simp_all add: show_nat.simps digit_char_def)
  have "snd (getTimeTable ?s' ex_creds (ex_send 3)) = Fulfilled ?t"
    using C3 by (simp add: keys weekObject_ex)
  moreover have "fst (getTimeTable ?s' ex_creds (ex_send 3))
      = [mk_request ?s' (timetableForm ?s' ex_creds)]"
    using C3 by simp
  ultimately have "getTimeTable ?s' ex_creds (ex_send 3)
      = ([mk_request ?s' (timetableForm ?s' ex_creds)], Fulfilled ?t)"
    by (simp add: prod_eq_iff)
  then show ?thesis
    using abs by simp
qed

subsection \<open>Grades\<close>

text \<open>\<open>includes_js\<close> is the search for a substring: \<open>sublist pat s\<close> says that
  \<open>s\<close> is \<open>ps @ pat @ ss\<close> for some \<open>ps\<close> and \<open>ss\<close>.\<close>

lemma includes_js_iff: "includes_js s pat \<longleftrightarrow> sublist pat s"
  by (induction s) (simp_all add: sublist_Cons_right)

text \<open>
  C5, as amended. \<open>colourGrade\<close> is total and classifies by the first test that
  matches, in the order \<open>Excellence\<close>, \<open>Merit\<close>, \<open>Not\<close>,
  \<open>Achieve(ment|d)\<close>: a grade text that holds \<open>Excellence\<close> is \<open>E\<close> whatever else
  it holds. When no test matches, the normalized grade is the raw grade text itself,
  and the event is logged; nothing is thrown.
\<close>

theorem C5_first_match:
  "(sublist ''Excellence'' g \<longrightarrow> colourGrade g = ((g, ''E''), []))
   \<and> (\<not> sublist ''Excellence'' g \<and> sublist ''Merit'' g \<longrightarrow> colourGrade g = ((g, ''M''), []))
   \<and> (\<not> sublist ''Excellence'' g \<and> \<not> sublist ''Merit'' g \<and> sublist ''Not'' g
        \<longrightarrow> colourGrade g = ((g, ''N''), []))
   \<and> (\<not> sublist ''Excellence'' g \<and> \<not> sublist ''Merit'' g \<and> \<not> sublist ''Not'' g
        \<and> (sublist ''Achievement'' g \<or> sublist ''Achieved'' g)
        \<longrightarrow> colourGrade g = ((g, ''A''), []))
   \<and> (\<not> sublist ''Excellence'' g \<and> \<not> sublist ''Merit'' g \<and> \<not> sublist ''Not'' g
        \<and> \<not> sublist ''Achievement'' g \<and> \<not> sublist ''Achieved'' g
        \<longrightarrow> colourGrade g = ((g, g), [[''Incomprehensible'', g]]))"
  by (simp add: colourGrade_def includes_js_iff)

theorem C5_first_match_witness:
  "colourGrade ''Achieved with Excellence'' = ((''Achieved with Excellence'', ''E''), [])
   \<and> colourGrade ''Achieved with Merit'' = ((''Achieved with Merit'', ''M''), [])
   \<and> colourGrade ''Not Achieved'' = ((''Not Achieved'', ''N''), [])
   \<and> colourGrade ''Achieved'' = ((''Achieved'', ''A''), [])
   \<and> colourGrade ''7'' = ((''7'', ''7''), [[''Incomprehensible'', ''7'']])"
proof -
  have "colourGrade ''Achieved with Excellence'' = ((''Achieved with Excellence'', ''E''), [])"
    using C5_first_match[of "''Achieved with Excellence''"]
    by (simp add: includes_js_iff[symmetric])
  moreover have "colourGrade ''Achieved with Merit'' = ((''Achieved with Merit'', ''M''), [])"
    using C5_first_match[of "''Achieved with Merit''"]
    by (simp add: includes_js_iff[symmetric])
  moreover have "colourGrade ''Not Achieved'' = ((''Not Achieved'', ''N''), [])"
    using C5_first_match[of "''Not Achieved''"]
    by (simp add: includes_js_iff[symmetric])
  moreover have "colourGrade ''Achieved'' = ((''Achieved'', ''A''), [])"
    using C5_first_match[of "''Achieved''"]
    by (simp add: includes_js_iff[symmetric])
  moreover have "colourGrade ''7'' = ((''7'', ''7''), [[''Incomprehensible'', ''7'']])"
    using C5_first_match[of "''7''"]
    by (simp add: includes_js_iff[symmetric])
  ultimately show ?thesis by simp
qed

text \<open>
  C5 as stated fails where no test matches: the normalized grade is then not a value
  of its own kind but the raw text. The raw text \<open>A\<close> matches no test, and its
  normalized grade is \<open>A\<close>, the normalized grade of \<open>Achieved\<close>.
\<close>

theorem C5_unmatched_grade_counterexample:
  "\<not> includes_js ''A'' ''Excellence'' \<and> \<not> includes_js ''A'' ''Merit''
   \<and> \<not> includes_js ''A'' ''Not'' \<and> \<not> includes_js ''A'' ''Achievement''
   \<and> \<not> includes_js ''A'' ''Achieved''
   \<and> snd (fst (colourGrade ''A'')) = ''A''
   \<and> snd (fst (colourGrade ''Achieved'')) = ''A''
   \<and> snd (fst (colourGrade ''Pass'')) = ''Pass''"
  by (simp add: colourGrade_def)

subsection \<open>The NCEA summary\<close>

lemma cols_eq:
  "cols = [''NotAchieved'', ''Achieved'', ''Merit'', ''Excellence'', ''Total'', ''Attempted'']"
  by (simp add: cols_def)

lemma tt_rows_Inr:
  "tt_rows yt rows = Inr rs \<Longrightarrow>
     length rs = length rows \<and> (\<forall>k < length rows. tt_row yt (rows ! k) = Inr (rs ! k))"
proof (induction rows arbitrary: rs)
  case Nil
  then show ?case by simp
next
  case (Cons r rows)
  then obtain x xs where "tt_row yt r = Inr x" "tt_rows yt rows = Inr xs" "rs = x # xs"
    by (auto simp: bind_err_Inr_iff)
  with Cons.IH[of xs] show ?case by (auto simp: nth_Cons')
qed

lemma tt_cell_fun:
  "tt_cell r = (\<lambda>col. ''<td>''
      @ (case credit_prop r col of None \<Rightarrow> [] | Some a \<Rightarrow> js_str (nth_opt a 0)) @ ''</td>'')"
  by (rule ext) (simp add: tt_cell_def)

lemma tt_row_Inr:
  "tt_row yt r = Inr x \<Longrightarrow> \<exists>lab. x = lab @ concat (map (tt_cell r) cols)"
proof -
  assume "tt_row yt r = Inr x"
  then obtain l where
    "x = (''<td><strong>'' @ js_str (nth_opt l 0) @ ''</strong></td>'') @ concat (map (tt_cell r) cols)"
    by (auto simp: tt_row_def split: option.splits)
  then show ?thesis by blast
qed

lemma credit_text_empty_iff:
  "(case f of None \<Rightarrow> [] | Some a \<Rightarrow> js_str (nth_opt a 0)) = []
     \<longleftrightarrow> f = None \<or> (\<exists>a. f = Some a \<and> nth_opt a 0 = Some [])"
  by (cases f; cases "nth_opt (the f) 0") (simp_all add: js_str_def)

lemma credit_text_first:
  "f = Some (v # rest) \<Longrightarrow> (case f of None \<Rightarrow> [] | Some a \<Rightarrow> js_str (nth_opt a 0)) = v"
  by (simp add: nth_opt_def js_str_def)

lemma tt_row_cells:
  "concat (map (tt_cell r) cols)
     = concat (map (\<lambda>x. ''<td>'' @ x @ ''</td>'')
         (map (\<lambda>col. case credit_prop r col of None \<Rightarrow> [] | Some a \<Rightarrow> js_str (nth_opt a 0)) cols))"
  unfolding tt_cell_fun by (simp add: comp_def)

lemma tt_Inr:
  assumes "tt st yt = Inr html" and "totals st yt = Some rows"
  shows "\<exists>rs. html = ''<tr>'' @ join_js ''</tr><tr>'' rs @ ''</tr>''
     \<and> length rs = length rows
     \<and> (\<forall>k < length rows. \<exists>lab cells.
           rs ! k = lab @ concat (map (\<lambda>x. ''<td>'' @ x @ ''</td>'') cells)
           \<and> length cells = 6
           \<and> (\<forall>j<6.
                 cells ! j = (case credit_prop (rows ! k) (cols ! j) of
                                None \<Rightarrow> [] | Some a \<Rightarrow> js_str (nth_opt a 0))
                 \<and> (cells ! j = [] \<longleftrightarrow>
                      credit_prop (rows ! k) (cols ! j) = None
                      \<or> (\<exists>a. credit_prop (rows ! k) (cols ! j) = Some a \<and> nth_opt a 0 = Some []))
                 \<and> (\<forall>v rest. credit_prop (rows ! k) (cols ! j) = Some (v # rest)
                      \<longrightarrow> cells ! j = v)))"
proof -
  from assms obtain rs where rs: "tt_rows yt rows = Inr rs"
    and html: "html = ''<tr>'' @ join_js ''</tr><tr>'' rs @ ''</tr>''"
    by (auto simp: tt_def bind_err_Inr_iff)
  from tt_rows_Inr[OF rs] have len: "length rs = length rows"
    and each: "\<forall>k < length rows. tt_row yt (rows ! k) = Inr (rs ! k)"
    by simp_all
  have "\<exists>lab cells.
           rs ! k = lab @ concat (map (\<lambda>x. ''<td>'' @ x @ ''</td>'') cells)
           \<and> length cells = 6
           \<and> (\<forall>j<6.
                 cells ! j = (case credit_prop (rows ! k) (cols ! j) of
                                None \<Rightarrow> [] | Some a \<Rightarrow> js_str (nth_opt a 0))
                 \<and> (cells ! j = [] \<longleftrightarrow>
                      credit_prop (rows ! k) (cols ! j) = None
                      \<or> (\<exists>a. credit_prop (rows ! k) (cols ! j) = Some a \<and> nth_opt a 0 = Some []))
                 \<and> (\<forall>v rest. credit_prop (rows ! k) (cols ! j) = Some (v # rest)
                      \<longrightarrow> cells ! j = v))"
    if k: "k < length rows" for k
  proof -
    let ?text = "\<lambda>col. case credit_prop (rows ! k) col of
                         None \<Rightarrow> [] | Some a \<Rightarrow> js_str (nth_opt a 0)"
    let ?cells = "map ?text cols"
    from each k obtain lab where "rs ! k = lab @ concat (map (tt_cell (rows ! k)) cols)"
      using tt_row_Inr by blast
    then have row: "rs ! k = lab @ concat (map (\<lambda>x. ''<td>'' @ x @ ''</td>'') ?cells)"
      by (simp only: tt_row_cells)
    have len_cols: "length cols = 6"
      by (simp add: cols_eq)
    then have six: "length ?cells = 6"
      by simp
    have nth: "?cells ! j = ?text (cols ! j)" if "j < 6" for j
      using that len_cols by (simp only: nth_map)
    have "\<forall>j<6.
            ?cells ! j = ?text (cols ! j)
            \<and> (?cells ! j = [] \<longleftrightarrow>
                 credit_prop (rows ! k) (cols ! j) = None
                 \<or> (\<exists>a. credit_prop (rows ! k) (cols ! j) = Some a \<and> nth_opt a 0 = Some []))
            \<and> (\<forall>v rest. credit_prop (rows ! k) (cols ! j) = Some (v # rest)
                 \<longrightarrow> ?cells ! j = v)"
      using nth credit_text_empty_iff credit_text_first by simp
    with row six show ?thesis by blast
  qed
  with html len show ?thesis by blast
qed

lemma blank_or_same:
  "blank_or f f = (case f of None \<Rightarrow> CellStr [] | Some a \<Rightarrow> CellArr a)"
  by (simp add: blank_or_def split: option.splits)


lemma credit_prop_cols:
  "credit_prop r (cols ! 0) = NotAchieved r" "credit_prop r (cols ! Suc 0) = Achieved r"
  "credit_prop r (cols ! 2) = Merit r" "credit_prop r (cols ! 3) = Excellence r"
  "credit_prop r (cols ! 4) = Total r" "credit_prop r (cols ! 5) = Attempted r"
  by (simp_all add: cols_eq credit_prop_def)

lemma six_cells:
  assumes "i < 6"
  shows "six (Some r) ! i = (case credit_prop r (cols ! i) of None \<Rightarrow> CellStr [] | Some a \<Rightarrow> CellArr a)"
proof -
  from assms have "i = 0 \<or> i = 1 \<or> i = 2 \<or> i = 3 \<or> i = 4 \<or> i = 5" by arith
  then show ?thesis
    by (elim disjE) (simp_all add: six_def credit_prop_cols blank_or_same)
qed

lemma sixTotal_cells:
  assumes "sixTotal st = Inr cells" and "CreditsTotal st = Some t" and "i < 6" and "i \<noteq> 2"
  shows "cells ! i = (case credit_prop t (cols ! i) of None \<Rightarrow> CellStr [] | Some a \<Rightarrow> CellArr a)"
proof -
  from assms(1,2) obtain m where
    cells: "cells = [blank_or (NotAchieved t) (NotAchieved t), blank_or (Achieved t) (Achieved t),
       m, blank_or (Excellence t) (Excellence t),
       blank_or (Total t) (Total t), blank_or (Attempted t) (Attempted t)]"
    by (auto simp: sixTotal_def split: option.splits)
  from assms(3,4) have "i = 0 \<or> i = 1 \<or> i = 3 \<or> i = 4 \<or> i = 5" by arith
  then show ?thesis
    by (elim disjE) (simp_all add: cells credit_prop_cols blank_or_same)
qed

lemma six_None: "six None = blanks"
  by (simp add: six_def)

lemma sixTotal_None: "CreditsTotal st = None \<Longrightarrow> sixTotal st = Inr blanks"
  by (simp add: sixTotal_def)

lemma nceaSummary_parts:
  assumes "nceaSummary st = Inr summ"
  shows "Internal summ = six (CreditsInternal st)"
    and "External summ = six (CreditsExternal st)"
    and "sixTotal st = Inr (TotalCredits summ)"
    and "tt st ''Year'' = Inr (year_rows summ)"
    and "tt st ''Level'' = Inr (level_rows summ)"
  using assms by (auto simp: nceaSummary_def bind_err_Inr_iff)

lemma tt_cell_ex:
  "concat (map (tt_cell ex_year_row) cols) = ''<td>0</td><td>12</td><td>3</td><td></td><td>15</td><td>15</td>''"
  "concat (map (tt_cell ex_level_row) cols) = ''<td></td><td>12</td><td>3</td><td></td><td>15</td><td>15</td>''"
  by (simp_all add: cols_eq tt_cell_def credit_prop_def ex_year_row_def ex_level_row_def
      nth_opt_def js_str_def)

lemma row_label_ex:
  "row_label ex_year_row ''Year'' = Some [''2023'']"
  "row_label ex_level_row ''Level'' = Some [''1'']"
  by (simp_all add: row_label_def ex_year_row_def ex_level_row_def)

lemma tt_ex:
  "tt ex_ncea_student ''Year'' = Inr (year_rows ex_summary)"
  "tt ex_ncea_student ''Level'' = Inr (level_rows ex_summary)"
  by (simp_all add: tt_def totals_def ex_ncea_student_def bind_err_def tt_row_def row_label_ex
      tt_cell_ex join_js_def ex_summary_def nth_opt_def js_str_def)

lemma nceaSummary_ex: "nceaSummary ex_ncea_student = Inr ex_summary"
proof -
  have q: "qualifications ex_ncea_student = Inr (qualification ex_summary)"
    by (simp add: qualifications_def ex_ncea_student_def ex_ncea_def first_of_def bind_err_def
        nth_opt_def ex_summary_def)
  have t: "sixTotal ex_ncea_student = Inr (TotalCredits ex_summary)"
    by (simp add: sixTotal_def ex_ncea_student_def ex_total_def ex_internal_def blank_or_def
        ex_summary_def)
  have i: "six (CreditsInternal ex_ncea_student) = Internal ex_summary"
    by (simp add: six_def ex_ncea_student_def ex_internal_def blank_or_def ex_summary_def)
  have e: "six (CreditsExternal ex_ncea_student) = External ex_summary"
    by (simp add: six_def ex_ncea_student_def blanks_def ex_summary_def)
  show ?thesis
    unfolding nceaSummary_def q t i e tt_ex by (simp add: bind_err_def)
qed

lemma fetch_summary_ex:
  "fst (fetch ex_session ex_send_summary (summaryForm ex_creds))
     = Fulfilled [(''StudentNCEASummaryResults'', no_body\<lparr>Students := Some ex_ncea_student\<rparr>)]"
  by (simp add: fetch_def settle_def resolve_def ok_reply_def ex_send_summary_def no_body_def)

text \<open>The promise of \<open>getNCEASummary\<close> is never fulfilled with a summary.\<close>

lemma getNCEASummary_never_summary: "getNCEASummary s c send \<noteq> Fulfilled (JsVal x)"
  by (simp add: getNCEASummary_def call_resolve_def resolve_def
      split: promise.splits option.splits sum.splits)

text \<open>
  C9. When the response arrives and the summary object is built without a throw, the
  promise of \<open>getNCEASummary\<close> is fulfilled with \<open>null\<close>: \<open>resolve\<close> is called
  with \<open>null\<close> and the summary, and takes its first argument only, so the summary
  is not delivered.
\<close>

theorem C9_summary_resolves_null:
  assumes "fst (fetch s send (summaryForm c)) = Fulfilled response"
    and "summaryStudent response = Some st"
    and "nceaSummary st = Inr summ"
  shows "getNCEASummary s c send = Fulfilled JsNull
    \<and> getNCEASummary s c send \<noteq> Fulfilled (JsVal summ)"
  using assms by (simp add: getNCEASummary_def call_resolve_def resolve_def)

theorem C9_summary_resolves_null_witness:
  "fst (fetch ex_session ex_send_summary (summaryForm ex_creds))
     = Fulfilled [(''StudentNCEASummaryResults'', no_body\<lparr>Students := Some ex_ncea_student\<rparr>)]
   \<and> nceaSummary ex_ncea_student = Inr ex_summary
   \<and> getNCEASummary ex_session ex_creds ex_send_summary = Fulfilled JsNull"
proof -
  have st: "summaryStudent [(''StudentNCEASummaryResults'', no_body\<lparr>Students := Some ex_ncea_student\<rparr>)]
      = Some ex_ncea_student"
    by (simp add: summaryStudent_def)
  from C9_summary_resolves_null[OF fetch_summary_ex st nceaSummary_ex]
  show ?thesis using fetch_summary_ex nceaSummary_ex by simp
qed

text \<open>
  C8, as amended. In the summary object, each cell of the six-tuples of
  \<open>CreditsInternal\<close> and \<open>CreditsExternal\<close>, and each cell but the third (Merit) of
  the six-tuple of \<open>CreditsTotal\<close>, is the empty string when the field of its column
  is absent, and the field's value, the array that wraps its text, otherwise; a
  six-tuple whose block is absent is six empty strings. Each credit column of a row
  of the year and level tables is empty exactly when the field is absent or its text
  is empty, and shows the field's text otherwise. A zero is text like any other: it
  is shown, not blanked.
\<close>

theorem C8_blank_only_when_absent:
  assumes "nceaSummary st = Inr summ"
  shows "(\<forall>i<6. \<forall>r. CreditsInternal st = Some r \<longrightarrow>
            Internal summ ! i
              = (case credit_prop r (cols ! i) of None \<Rightarrow> CellStr [] | Some a \<Rightarrow> CellArr a))
     \<and> (\<forall>i<6. \<forall>r. CreditsExternal st = Some r \<longrightarrow>
            External summ ! i
              = (case credit_prop r (cols ! i) of None \<Rightarrow> CellStr [] | Some a \<Rightarrow> CellArr a))
     \<and> (\<forall>i<6. i \<noteq> 2 \<longrightarrow> (\<forall>t. CreditsTotal st = Some t \<longrightarrow>
            TotalCredits summ ! i
              = (case credit_prop t (cols ! i) of None \<Rightarrow> CellStr [] | Some a \<Rightarrow> CellArr a)))
     \<and> (CreditsInternal st = None \<longrightarrow> Internal summ = blanks)
     \<and> (CreditsExternal st = None \<longrightarrow> External summ = blanks)
     \<and> (CreditsTotal st = None \<longrightarrow> TotalCredits summ = blanks)
     \<and> (\<forall>rows. YearTotals st = Some rows \<longrightarrow>
          (\<exists>rs. year_rows summ = ''<tr>'' @ join_js ''</tr><tr>'' rs @ ''</tr>''
             \<and> length rs = length rows
             \<and> (\<forall>k < length rows. \<exists>lab cells.
                   rs ! k = lab @ concat (map (\<lambda>x. ''<td>'' @ x @ ''</td>'') cells)
                   \<and> length cells = 6
                   \<and> (\<forall>j<6.
                         cells ! j = (case credit_prop (rows ! k) (cols ! j) of
                                        None \<Rightarrow> [] | Some a \<Rightarrow> js_str (nth_opt a 0))
                         \<and> (cells ! j = [] \<longleftrightarrow>
                              credit_prop (rows ! k) (cols ! j) = None
                              \<or> (\<exists>a. credit_prop (rows ! k) (cols ! j) = Some a
                                    \<and> nth_opt a 0 = Some []))
                         \<and> (\<forall>v rest. credit_prop (rows ! k) (cols ! j) = Some (v # rest)
                              \<longrightarrow> cells ! j = v)))))
     \<and> (\<forall>rows. LevelTotals st = Some rows \<longrightarrow>
          (\<exists>rs. level_rows summ = ''<tr>'' @ join_js ''</tr><tr>'' rs @ ''</tr>''
             \<and> length rs = length rows
             \<and> (\<forall>k < length rows. \<exists>lab cells.
                   rs ! k = lab @ concat (map (\<lambda>x. ''<td>'' @ x @ ''</td>'') cells)
                   \<and> length cells = 6
                   \<and> (\<forall>j<6.
                         cells ! j = (case credit_prop (rows ! k) (cols ! j) of
                                        None \<Rightarrow> [] | Some a \<Rightarrow> js_str (nth_opt a 0))
                         \<and> (cells ! j = [] \<longleftrightarrow>
                              credit_prop (rows ! k) (cols ! j) = None
                              \<or> (\<exists>a. credit_prop (rows ! k) (cols ! j) = Some a
                                    \<and> nth_opt a 0 = Some []))
                         \<and> (\<forall>v rest. credit_prop (rows ! k) (cols ! j) = Some (v # rest)
                              \<longrightarrow> cells ! j = v)))))"
proof -
  note parts = nceaSummary_parts[OF assms]
  have int: "\<forall>i<6. \<forall>r. CreditsInternal st = Some r \<longrightarrow>
            Internal summ ! i
              = (case credit_prop r (cols ! i) of None \<Rightarrow> CellStr [] | Some a \<Rightarrow> CellArr a)"
    using parts(1) six_cells by simp
  have ext: "\<forall>i<6. \<forall>r. CreditsExternal st = Some r \<longrightarrow>
            External summ ! i
              = (case credit_prop r (cols ! i) of None \<Rightarrow> CellStr [] | Some a \<Rightarrow> CellArr a)"
    using parts(2) six_cells by simp
  have tot: "\<forall>i<6. i \<noteq> 2 \<longrightarrow> (\<forall>t. CreditsTotal st = Some t \<longrightarrow>
            TotalCredits summ ! i
              = (case credit_prop t (cols ! i) of None \<Rightarrow> CellStr [] | Some a \<Rightarrow> CellArr a))"
    using sixTotal_cells[OF parts(3)] by blast
  have none: "CreditsInternal st = None \<longrightarrow> Internal summ = blanks"
    "CreditsExternal st = None \<longrightarrow> External summ = blanks"
    "CreditsTotal st = None \<longrightarrow> TotalCredits summ = blanks"
    using parts(1,2,3) by (auto simp: six_None sixTotal_None)
  have yt: "totals st ''Year'' = YearTotals st" "totals st ''Level'' = LevelTotals st"
    by (simp_all add: totals_def)
  note yr = tt_Inr[OF parts(4), unfolded yt]
  note lv = tt_Inr[OF parts(5), unfolded yt]
  from int ext tot none show ?thesis
    by (intro conjI) (assumption+, (intro allI impI, erule yr), (intro allI impI, erule lv))
qed

theorem C8_blank_only_when_absent_witness:
  "nceaSummary ex_ncea_student = Inr ex_summary
   \<and> Internal ex_summary ! 0 = CellArr [''0'']
   \<and> Internal ex_summary ! 2 = CellStr []
   \<and> TotalCredits ex_summary ! 4 = CellArr [''19'']
   \<and> External ex_summary = blanks
   \<and> (\<exists>rs lab cells. year_rows ex_summary = ''<tr>'' @ join_js ''</tr><tr>'' rs @ ''</tr>''
        \<and> rs ! 0 = lab @ concat (map (\<lambda>x. ''<td>'' @ x @ ''</td>'') cells)
        \<and> cells ! 0 = ''0'' \<and> cells ! 1 = ''12'' \<and> cells ! 3 = [])
   \<and> (\<exists>rs lab cells. level_rows ex_summary = ''<tr>'' @ join_js ''</tr><tr>'' rs @ ''</tr>''
        \<and> rs ! 0 = lab @ concat (map (\<lambda>x. ''<td>'' @ x @ ''</td>'') cells)
        \<and> cells ! 0 = [] \<and> cells ! 3 = [])"
proof -
  note C8 = C8_blank_only_when_absent[OF nceaSummary_ex]
  note rest1 = C8[THEN conjunct2]
  note rest2 = rest1[THEN conjunct2]
  note rest3 = rest2[THEN conjunct2]
  note rest4 = rest3[THEN conjunct2]
  note rest5 = rest4[THEN conjunct2]
  note rest6 = rest5[THEN conjunct2]
  note c_int = C8[THEN conjunct1, rule_format]
  note c_tot = rest2[THEN conjunct1, rule_format]
  note c_ext_none = rest4[THEN conjunct1, rule_format]
  note c_year = rest6[THEN conjunct1, rule_format]
  note c_level = rest6[THEN conjunct2, rule_format]
  have st: "CreditsInternal ex_ncea_student = Some ex_internal"
    "CreditsExternal ex_ncea_student = None"
    "CreditsTotal ex_ncea_student = Some ex_total"
    "YearTotals ex_ncea_student = Some [ex_year_row]"
    "LevelTotals ex_ncea_student = Some [ex_level_row]"
    by (simp_all add: ex_ncea_student_def)
  have "Internal ex_summary ! 0 = CellArr [''0'']"
    using c_int[of 0, OF _ st(1)] by (simp add: credit_prop_cols ex_internal_def)
  moreover have "Internal ex_summary ! 2 = CellStr []"
    using c_int[of 2, OF _ st(1)] by (simp add: credit_prop_cols ex_internal_def)
  moreover have "TotalCredits ex_summary ! 4 = CellArr [''19'']"
    using c_tot[of 4, OF _ _ st(3)] by (simp add: credit_prop_cols ex_total_def)
  moreover have "External ex_summary = blanks"
    using c_ext_none[OF st(2)] .
  moreover have "\<exists>rs lab cells. year_rows ex_summary = ''<tr>'' @ join_js ''</tr><tr>'' rs @ ''</tr>''
        \<and> rs ! 0 = lab @ concat (map (\<lambda>x. ''<td>'' @ x @ ''</td>'') cells)
        \<and> cells ! 0 = ''0'' \<and> cells ! 1 = ''12'' \<and> cells ! 3 = []"
  proof -
    from c_year[OF st(4)] obtain rs where rs: "year_rows ex_summary = ''<tr>'' @ join_js ''</tr><tr>'' rs @ ''</tr>''"
      and each: "\<forall>k < length [ex_year_row]. \<exists>lab cells.
                   rs ! k = lab @ concat (map (\<lambda>x. ''<td>'' @ x @ ''</td>'') cells)
                   \<and> length cells = 6
                   \<and> (\<forall>j<6.
                         cells ! j = (case credit_prop ([ex_year_row] ! k) (cols ! j) of
                                        None \<Rightarrow> [] | Some a \<Rightarrow> js_str (nth_opt a 0))
                         \<and> (cells ! j = [] \<longleftrightarrow>
                              credit_prop ([ex_year_row] ! k) (cols ! j) = None
                              \<or> (\<exists>a. credit_prop ([ex_year_row] ! k) (cols ! j) = Some a
                                    \<and> nth_opt a 0 = Some []))
                         \<and> (\<forall>v rest. credit_prop ([ex_year_row] ! k) (cols ! j) = Some (v # rest)
                              \<longrightarrow> cells ! j = v))"
      by blast
    have z: "0 < length [ex_year_row]" by simp
    have nth0: "[ex_year_row] ! 0 = ex_year_row" by simp
    note e0 = each[rule_format, OF z, unfolded nth0]
    from e0 obtain lab cells where row: "rs ! 0 = lab @ concat (map (\<lambda>x. ''<td>'' @ x @ ''</td>'') cells)"
      and all: "\<forall>j<6.
                         cells ! j = (case credit_prop ex_year_row (cols ! j) of
                                        None \<Rightarrow> [] | Some a \<Rightarrow> js_str (nth_opt a 0))
                         \<and> (cells ! j = [] \<longleftrightarrow>
                              credit_prop ex_year_row (cols ! j) = None
                              \<or> (\<exists>a. credit_prop ex_year_row (cols ! j) = Some a
                                    \<and> nth_opt a 0 = Some []))
                         \<and> (\<forall>v rest. credit_prop ex_year_row (cols ! j) = Some (v # rest)
                              \<longrightarrow> cells ! j = v)"
      by blast
    from all have first: "\<forall>j<6. \<forall>v rest. credit_prop ex_year_row (cols ! j) = Some (v # rest) \<longrightarrow> cells ! j = v"
      and empty: "\<forall>j<6. cells ! j = [] \<longleftrightarrow>
                              credit_prop ex_year_row (cols ! j) = None
                              \<or> (\<exists>a. credit_prop ex_year_row (cols ! j) = Some a
                                    \<and> nth_opt a 0 = Some [])"
      by blast+
    have f: "credit_prop ex_year_row (cols ! 0) = Some [''0'']"
      "credit_prop ex_year_row (cols ! 1) = Some [''12'']"
      "credit_prop ex_year_row (cols ! 3) = None"
      using credit_prop_cols(2)[of ex_year_row]
      by (simp_all add: credit_prop_cols ex_year_row_def)
    have "cells ! 0 = ''0''" using first f(1) by simp
    moreover have "cells ! 1 = ''12''" using first f(2) by simp
    moreover have "cells ! 3 = []" using empty f(3) by simp
    ultimately show ?thesis using rs row by blast
  qed
  moreover have "\<exists>rs lab cells. level_rows ex_summary = ''<tr>'' @ join_js ''</tr><tr>'' rs @ ''</tr>''
        \<and> rs ! 0 = lab @ concat (map (\<lambda>x. ''<td>'' @ x @ ''</td>'') cells)
        \<and> cells ! 0 = [] \<and> cells ! 3 = []"
  proof -
    from c_level[OF st(5)] obtain rs where rs: "level_rows ex_summary = ''<tr>'' @ join_js ''</tr><tr>'' rs @ ''</tr>''"
      and each: "\<forall>k < length [ex_level_row]. \<exists>lab cells.
                   rs ! k = lab @ concat (map (\<lambda>x. ''<td>'' @ x @ ''</td>'') cells)
                   \<and> length cells = 6
                   \<and> (\<forall>j<6.
                         cells ! j = (case credit_prop ([ex_level_row] ! k) (cols ! j) of
                                        None \<Rightarrow> [] | Some a \<Rightarrow> js_str (nth_opt a 0))
                         \<and> (cells ! j = [] \<longleftrightarrow>
                              credit_prop ([ex_level_row] ! k) (cols ! j) = None
                              \<or> (\<exists>a. credit_prop ([ex_level_row] ! k) (cols ! j) = Some a
                                    \<and> nth_opt a 0 = Some []))
                         \<and> (\<forall>v rest. credit_prop ([ex_level_row] ! k) (cols ! j) = Some (v # rest)
                              \<longrightarrow> cells ! j = v))"
      by blast
    have z: "0 < length [ex_level_row]" by simp
    have nth0: "[ex_level_row] ! 0 = ex_level_row" by simp
    note e0 = each[rule_format, OF z, unfolded nth0]
    from e0 obtain lab cells where row: "rs ! 0 = lab @ concat (map (\<lambda>x. ''<td>'' @ x @ ''</td>'') cells)"
      and all: "\<forall>j<6.
                         cells ! j = (case credit_prop ex_level_row (cols ! j) of
                                        None \<Rightarrow> [] | Some a \<Rightarrow> js_str (nth_opt a 0))
                         \<and> (cells ! j = [] \<longleftrightarrow>
                              credit_prop ex_level_row (cols ! j) = None
                              \<or> (\<exists>a. credit_prop ex_level_row (cols ! j) = Some a
                                    \<and> nth_opt a 0 = Some []))
                         \<and> (\<forall>v rest. credit_prop ex_level_row (cols ! j) = Some (v # rest)
                              \<longrightarrow> cells ! j = v)"
      by blast
    from all have first: "\<forall>j<6. \<forall>v rest. credit_prop ex_level_row (cols ! j) = Some (v # rest) \<longrightarrow> cells ! j = v"
      and empty: "\<forall>j<6. cells ! j = [] \<longleftrightarrow>
                              credit_prop ex_level_row (cols ! j) = None
                              \<or> (\<exists>a. credit_prop ex_level_row (cols ! j) = Some a
                                    \<and> nth_opt a 0 = Some [])"
      by blast+
    have f: "credit_prop ex_level_row (cols ! 0) = None"
      "credit_prop ex_level_row (cols ! 3) = Some [[]]"
      by (simp_all add: credit_prop_cols ex_level_row_def)
    have "cells ! 0 = []" using empty f(1) by simp
    moreover have "cells ! 3 = []" using empty f(2) by (simp add: nth_opt_def)
    ultimately show ?thesis using rs row by blast
  qed
  ultimately show ?thesis using nceaSummary_ex by simp
qed

text \<open>
  C8 as stated fails for a field that is present and zero: the deserializer wraps
  every leaf in an array, an array is never falsy, and the cell shows the zero.
\<close>

theorem C8_zero_is_rendered_counterexample:
  "NotAchieved ex_internal = Some [''0'']
   \<and> nceaSummary ex_ncea_student = Inr ex_summary
   \<and> Internal ex_summary ! 0 = CellArr [''0'']
   \<and> Internal ex_summary ! 0 \<noteq> CellStr []
   \<and> tt_cell ex_year_row ''NotAchieved'' = ''<td>0</td>''"
  by (simp add: nceaSummary_ex)
    (simp add: ex_internal_def ex_summary_def tt_cell_def credit_prop_def ex_year_row_def
      nth_opt_def js_str_def)

text \<open>The third cell of the six-tuple of \<open>CreditsTotal\<close> tests the Merit field of
  \<open>CreditsInternal\<close>: it is blank here although \<open>CreditsTotal\<close> has a Merit field.\<close>

lemma Total_Merit_tests_Internal:
  "Merit ex_total = Some [''3''] \<and> Merit ex_internal = None
   \<and> sixTotal ex_ncea_student = Inr (TotalCredits ex_summary)
   \<and> TotalCredits ex_summary ! 2 = CellStr []"
  using nceaSummary_parts(3)[OF nceaSummary_ex]
  by (simp add: ex_total_def ex_internal_def ex_summary_def)

subsection \<open>The vCard\<close>

lemma escape_no_LF: "LF \<notin> set (escape_newlines a)"
  by (induction a) (auto simp: escape_newlines_def LF_def)

lemma escape_append: "escape_newlines (x @ y) = escape_newlines x @ escape_newlines y"
  by (simp add: escape_newlines_def)

lemma escape_LF: "escape_newlines (x @ LF # y) = escape_newlines x @ [CHR 0x5C, CHR ''n''] @ escape_newlines y"
  by (simp add: escape_newlines_def)

lemma js_str_nth_no_LF:
  "\<forall>x \<in> set xs. LF \<notin> set x \<Longrightarrow> LF \<notin> set (js_str (nth_opt xs i))"
  by (auto simp: js_str_def nth_opt_def LF_def)

lemma vCardLines_no_LF:
  assumes "\<forall>x \<in> vCardFields s now c d. LF \<notin> set x"
  shows "\<forall>f \<in> set (vCardLines s now c d). LF \<notin> set f"
proof -
  from assms have lists: "\<forall>x \<in> set (Names d). LF \<notin> set x" "\<forall>x \<in> set (Gender d). LF \<notin> set x"
    "\<forall>x \<in> set (Birthday d). LF \<notin> set x"
    and scalars: "LF \<notin> set (ID d)" "LF \<notin> set (Ethnicity d)" "LF \<notin> set (LifeA_Phone d)"
      "LF \<notin> set (EmergencyContact_Name d)" "LF \<notin> set (EmergencyContact_phCell d)"
      "LF \<notin> set (portal s)" "LF \<notin> set (key c)" "LF \<notin> set now"
    by (simp_all add: vCardFields_def)
  have lit: "\<And>x. x \<noteq> CHR 0x0A \<Longrightarrow> x \<noteq> LF"
    by (simp add: LF_def)
  note free = js_str_nth_no_LF[OF lists(1)] js_str_nth_no_LF[OF lists(2)]
    js_str_nth_no_LF[OF lists(3)] escape_no_LF scalars
  show ?thesis
    by (simp add: vCardLines_def free) (simp add: LF_def)
qed

lemma vCard_split:
  assumes "\<forall>x \<in> vCardFields s now c d. LF \<notin> set x"
  shows "split_js LF (makevCardFromDetails s now c d) = vCardLines s now c d"
  unfolding makevCardFromDetails_def
  by (rule split_join) (simp add: vCardLines_def, rule vCardLines_no_LF[OF assms])

lemma ex_fields_no_LF: "\<forall>x \<in> vCardFields ex_session ex_now ex_creds ex_details. LF \<notin> set x"
  by (simp add: vCardFields_def ex_session_def ex_now_def ex_creds_def ex_details_def LF_def)

lemma ex_address: "LifeA_Address ex_details = ''1 Lake Rd'' @ LF # ''Takapuna''"
  by (simp add: ex_details_def)

lemma escape_plain: "LF \<notin> set a \<Longrightarrow> escape_newlines a = a"
  by (induction a) (auto simp: escape_newlines_def)

text \<open>
  C10, as amended. When no string shown other than the address holds a line feed, the
  card is a block of 16 lines joined by line feeds, in the order BEGIN, VERSION, N,
  NICKNAME, FN, ORG, GENDER, TITLE, PHOTO, TEL, ADR, EMAIL, REV, BDAY, NOTE, END. In the
  ADR line every line feed of the address is replaced by a backslash and an \<open>n\<close>,
  so the line holds no line feed.
\<close>

theorem C10_vcard_sixteen_lines:
  assumes "\<forall>x \<in> vCardFields s now c d. LF \<notin> set x"
  shows "\<exists>ls. split_js LF (makevCardFromDetails s now c d) = ls
     \<and> length ls = 16
     \<and> list_all2 prefix
          [''BEGIN:VCARD'', ''VERSION:4.0'', ''N:'', ''NICKNAME:'', ''FN:'', ''ORG:'', ''GENDER:'',
           ''TITLE:'', ''PHOTO'', ''TEL'', ''ADR'', ''EMAIL:'', ''REV:'', ''BDAY:'', ''NOTE:'',
           ''END:VCARD''] ls
     \<and> ls ! 10 = ''ADR;TYPE=home;home='' @ [CHR 0x22] @ escape_newlines (LifeA_Address d)
          @ [CHR 0x22] @ '':;;'' @ escape_newlines (LifeA_Address d)
     \<and> LF \<notin> set (escape_newlines (LifeA_Address d))
     \<and> (\<forall>x y. LifeA_Address d = x @ LF # y \<longrightarrow>
          escape_newlines (LifeA_Address d)
            = escape_newlines x @ [CHR 0x5C, CHR ''n''] @ escape_newlines y)"
proof -
  let ?ls = "vCardLines s now c d"
  have "split_js LF (makevCardFromDetails s now c d) = ?ls"
    by (rule vCard_split[OF assms])
  moreover have "length ?ls = 16"
    by (simp add: vCardLines_def)
  moreover have "list_all2 prefix
          [''BEGIN:VCARD'', ''VERSION:4.0'', ''N:'', ''NICKNAME:'', ''FN:'', ''ORG:'', ''GENDER:'',
           ''TITLE:'', ''PHOTO'', ''TEL'', ''ADR'', ''EMAIL:'', ''REV:'', ''BDAY:'', ''NOTE:'',
           ''END:VCARD''] ?ls"
    by (simp add: vCardLines_def)
  moreover have "?ls ! 10 = ''ADR;TYPE=home;home='' @ [CHR 0x22] @ escape_newlines (LifeA_Address d)
          @ [CHR 0x22] @ '':;;'' @ escape_newlines (LifeA_Address d)"
    by (simp add: vCardLines_def)
  moreover have "\<forall>x y. LifeA_Address d = x @ LF # y \<longrightarrow>
          escape_newlines (LifeA_Address d)
            = escape_newlines x @ [CHR 0x5C, CHR ''n''] @ escape_newlines y"
    by (simp add: escape_LF)
  ultimately show ?thesis
    using escape_no_LF by blast
qed

theorem C10_vcard_sixteen_lines_witness:
  "LifeA_Address ex_details = ''1 Lake Rd'' @ LF # ''Takapuna''
   \<and> length (split_js LF (makevCardFromDetails ex_session ex_now ex_creds ex_details)) = 16
   \<and> escape_newlines (LifeA_Address ex_details) = ''1 Lake Rd'' @ [CHR 0x5C, CHR ''n''] @ ''Takapuna''"
proof -
  from C10_vcard_sixteen_lines[OF ex_fields_no_LF]
  have len: "length (split_js LF (makevCardFromDetails ex_session ex_now ex_creds ex_details)) = 16"
    and esc: "\<forall>x y. LifeA_Address ex_details = x @ LF # y \<longrightarrow>
          escape_newlines (LifeA_Address ex_details)
            = escape_newlines x @ [CHR 0x5C, CHR ''n''] @ escape_newlines y"
    by blast+
  have "escape_newlines ''1 Lake Rd'' = ''1 Lake Rd''" "escape_newlines ''Takapuna'' = ''Takapuna''"
    by (rule escape_plain, simp add: LF_def)+
  with esc ex_address have "escape_newlines (LifeA_Address ex_details)
      = ''1 Lake Rd'' @ [CHR 0x5C, CHR ''n''] @ ''Takapuna''"
    by metis
  with len ex_address show ?thesis by blast
qed

text \<open>
  C10 as stated fails in its count of lines: the array has 16 entries, so the card
  has 16 lines, not 13 to 15.
\<close>

theorem C10_line_count_counterexample:
  "length (split_js LF (makevCardFromDetails ex_session ex_now ex_creds ex_details)) = 16
   \<and> \<not> (13 \<le> length (split_js LF (makevCardFromDetails ex_session ex_now ex_creds ex_details))
        \<and> length (split_js LF (makevCardFromDetails ex_session ex_now ex_creds ex_details)) \<le> 15)"
  by (simp add: vCard_split[OF ex_fields_no_LF] vCardLines_def)

end
